theory Spec2Isabelle
  imports Main "HOL-Library.Sublist"
begin

section \<open>The IPMI exporter charm (src/charm.py)\<close>

text \<open>
  The charm provisions the \<open>ipmi_exporter\<close> daemon on one host. Its handlers are
  straight-line sequences of file operations and external commands. The embedding
  threads an explicit host state through every operation; a Python exception is an
  outcome \<open>Raise e\<close> that stops the sequence, as an uncaught exception does (the
  source has no \<open>try\<close> block anywhere).
\<close>

subsection \<open>Python strings\<close>

text \<open>\<open>s.split(sep)\<close> for a one-character separator: never returns the empty list.\<close>

fun split :: "char \<Rightarrow> string \<Rightarrow> string list" where
  "split sep [] = [[]]"
| "split sep (c # cs) =
     (if c = sep then [] # split sep cs
      else (case split sep cs of
              [] \<Rightarrow> [[c]]
            | w # ws \<Rightarrow> (c # w) # ws))"

text \<open>\<open>needle in haystack\<close> on strings: contiguous substring.\<close>

fun str_in :: "string \<Rightarrow> string \<Rightarrow> bool" where
  "str_in needle [] = (needle = [])"
| "str_in needle (c # cs) = (prefix needle (c # cs) \<or> str_in needle cs)"

text \<open>\<open>s.lower()\<close>, on the ASCII letters.\<close>

definition lower_char :: "char \<Rightarrow> char" where
  "lower_char c =
     (case map_of (zip ''ABCDEFGHIJKLMNOPQRSTUVWXYZ'' ''abcdefghijklmnopqrstuvwxyz'') c of
        None \<Rightarrow> c
      | Some l \<Rightarrow> l)"

definition lower :: "string \<Rightarrow> string" where
  "lower s = map lower_char s"

subsection \<open>Exceptions\<close>

datatype error =
    AttributeError
  | IndexError
  | FileNotFoundError string
  | FileExistsError string
  | IsADirectoryError string
  | NotADirectoryError string
  | LookupError string
  | URLError
  | ContentTooShortError
  | ReadError
  | ExtractError
  | TemplateNotFound string
  | TemplateError

subsection \<open>The port accessor\<close>

text \<open>
  \<open>self.model.config.get("listen-address").split(":")[1]\<close>. The configuration
  bag maps option names to strings; \<open>get\<close> of an unset option is \<open>None\<close>, and
  \<open>None.split\<close> raises \<open>AttributeError\<close>. Index 1 of a one-element list raises
  \<open>IndexError\<close>.
\<close>

definition port :: "(string \<rightharpoonup> string) \<Rightarrow> error + string" where
  "port cfg =
     (case cfg ''listen-address'' of
        None \<Rightarrow> Inl AttributeError
      | Some la \<Rightarrow>
          (case split (CHR '':'') la of
             _ # p # _ \<Rightarrow> Inr p
           | _ \<Rightarrow> Inl IndexError))"

subsection \<open>Regular expressions\<close>

text \<open>
  \<open>re.search\<close> with Python's backtracking semantics, for patterns that are a sequence
  of the atoms \<open>[0-9]+\<close> and \<open>.\<close>: the leftmost start position that matches wins, and
  at that position every \<open>+\<close> is greedy (it takes the longest run first and gives
  characters back one at a time). The atom \<open>.\<close> matches any character but a newline.
  \<open>match_here p s\<close> is the length of the match of \<open>p\<close> at the start of \<open>s\<close>.
\<close>

datatype atom = Digits | AnyChar

definition is_digit :: "char \<Rightarrow> bool" where
  "is_digit c = (c \<in> set ''0123456789'')"

function match_here :: "atom list \<Rightarrow> string \<Rightarrow> nat option"
  and backtrack :: "atom list \<Rightarrow> string \<Rightarrow> nat \<Rightarrow> nat option" where
  "match_here [] s = Some 0"
| "match_here (AnyChar # p) s =
     (case s of
        [] \<Rightarrow> None
      | c # cs \<Rightarrow> if c = CHR 0x0A then None else map_option Suc (match_here p cs))"
| "match_here (Digits # p) s = backtrack p s (length (takeWhile is_digit s))"
| "backtrack p s 0 = None"
| "backtrack p s (Suc k) =
     (case match_here p (drop (Suc k) s) of
        Some n \<Rightarrow> Some (Suc k + n)
      | None \<Rightarrow> backtrack p s k)"
  by pat_completeness auto
termination
  by (relation "measures [\<lambda>x. case x of Inl (p, s) \<Rightarrow> 2 * length p
                                      | Inr (p, s, k) \<Rightarrow> 2 * length p + 1,
                           \<lambda>x. case x of Inl _ \<Rightarrow> 0 | Inr (p, s, k) \<Rightarrow> k]")
     auto

text \<open>\<open>re.search(p, s)\<close>: \<open>None\<close>, or \<open>group(0)\<close> of the leftmost match.\<close>

fun re_search :: "atom list \<Rightarrow> string \<Rightarrow> string option" where
  "re_search p [] = (case match_here p [] of None \<Rightarrow> None | Some n \<Rightarrow> Some [])"
| "re_search p (c # cs) =
     (case match_here p (c # cs) of
        None \<Rightarrow> re_search p cs
      | Some n \<Rightarrow> Some (take n (c # cs)))"

text \<open>The pattern of \<open>_set_charm_version\<close>, \<open>r'([0-9]+.[0-9]+.[0-9]+)'\<close>: its dots are
  not escaped.\<close>

definition version_pattern :: "atom list" where
  "version_pattern = [Digits, AnyChar, Digits, AnyChar, Digits]"

subsection \<open>The host\<close>

text \<open>
  The host is what the charm reads and writes: regular files with their content,
  directories, the names of the programs found on the search path, the user and group
  databases, and the unit's status and workload version as reported to Juju. \<open>log\<close> records every operation the charm attempts, oldest first;
  an operation is logged whether it succeeds or raises. File permissions are not part of
  the state (the charm runs as root), nor is file ownership.
\<close>

type_synonym path = string

datatype event =
    Call "string list"
  | UrlRetrieve string path
  | TarOpen path
  | MkDTemp path
  | ExtractAll path
  | Copy path path
  | RmTree path
  | Unlink path
  | Mkdir path
  | OpenW path
  | Write path string
  | Rename path path
  | Chown path string string

datatype status = MaintenanceStatus string | ActiveStatus string

record host =
  files :: "path \<rightharpoonup> string"
  dirs :: "path set"
  programs :: "string set"
  users :: "string set"
  groups :: "string set"
  log :: "event list"
  status :: "status option"
  workload_version :: "string option"

datatype outcome = Ok | Raise error

type_synonym step = "host \<Rightarrow> outcome \<times> host"

text \<open>Statements in sequence: the first exception ends the run.\<close>

fun seq :: "step list \<Rightarrow> step" where
  "seq [] h = (Ok, h)"
| "seq (f # fs) h =
     (case f h of
        (Ok, h') \<Rightarrow> seq fs h'
      | (Raise e, h') \<Rightarrow> (Raise e, h'))"

text \<open>The host states an observer can see while a sequence runs: the state after each
  statement that was executed.\<close>

fun observable :: "step list \<Rightarrow> host \<Rightarrow> host list" where
  "observable [] h = []"
| "observable (f # fs) h =
     (case f h of
        (Ok, h') \<Rightarrow> h' # observable fs h'
      | (Raise e, h') \<Rightarrow> [h'])"

subsection \<open>The world outside the charm\<close>

text \<open>
  What the charm cannot decide is a parameter: the configuration bag, the directory of
  the charm's own files, what a download returns, how \<open>tarfile\<close> reads the bytes of an
  archive, the name \<open>mkdtemp\<close> picks, the exit status and the standard output of an
  external command, the Jinja renderer, and \<open>Prometheus.set_host_port\<close> (of the module
  \<open>prometheus_ipmi_exporter\<close>).
\<close>

datatype download = Unreachable | Short string | Complete string

datatype tar = NotATar | Tar "(path \<times> string) list" | Truncated "(path \<times> string) list"

record env =
  config :: "string \<rightharpoonup> string"
  charm_dir :: path
  urlopen :: "string \<Rightarrow> download"
  tarfile :: "string \<Rightarrow> tar"
  mkdtemp :: path
  exit_status :: "string list \<Rightarrow> host \<Rightarrow> int"
  stdout :: "string list \<Rightarrow> host \<Rightarrow> string"
  jinja :: "string \<Rightarrow> (string \<rightharpoonup> string option) \<Rightarrow> error + string"
  set_host_port :: step

subsection \<open>Paths\<close>

text \<open>\<open>os.path.dirname\<close> of an absolute path without a trailing slash.\<close>

definition dirname :: "path \<Rightarrow> path" where
  "dirname p =
     (let d = rev (tl (dropWhile (\<lambda>c. c \<noteq> CHR ''/'') (rev p)))
      in if d = [] then ''/'' else d)"

definition basename :: "path \<Rightarrow> string" where
  "basename p = rev (takeWhile (\<lambda>c. c \<noteq> CHR ''/'') (rev p))"

text \<open>The directories above \<open>p\<close>, and the paths at or below a directory \<open>d\<close>.\<close>

fun ancestors_from :: "path \<Rightarrow> string \<Rightarrow> path list" where
  "ancestors_from seen [] = []"
| "ancestors_from seen (c # cs) =
     (if c = CHR ''/'' \<and> seen \<noteq> [] then [seen] else []) @ ancestors_from (seen @ [c]) cs"

definition ancestors :: "path \<Rightarrow> path list" where
  "ancestors p = ancestors_from [] p"

definition under :: "path \<Rightarrow> path \<Rightarrow> bool" where
  "under d p = (p = d \<or> prefix (d @ ''/'') p)"

definition path_exists :: "path \<Rightarrow> host \<Rightarrow> bool" where
  "path_exists p h = (files h p \<noteq> None \<or> p \<in> dirs h)"

text \<open>Nothing exists at or below \<open>d\<close>.\<close>

definition clean :: "path \<Rightarrow> host \<Rightarrow> bool" where
  "clean d h = (\<forall>p. under d p \<longrightarrow> \<not> path_exists p h)"

subsection \<open>Operations of the Python library\<close>

definition record_event :: "event \<Rightarrow> host \<Rightarrow> host" where
  "record_event e h = h\<lparr>log := log h @ [e]\<rparr>"

text \<open>
  What an account tool does to the host when it exits with status 0. Every other command
  the charm runs (\<open>systemctl\<close>, \<open>dpkg\<close>, \<open>apt-get\<close>) leaves the modelled state as it is.
\<close>

definition tool_effect :: "string list \<Rightarrow> host \<Rightarrow> host" where
  "tool_effect argv h =
     (case argv of
        [] \<Rightarrow> h
      | cmd # args \<Rightarrow>
          if cmd = ''groupadd'' then h\<lparr>groups := insert (last argv) (groups h)\<rparr>
          else if cmd = ''useradd'' then h\<lparr>users := insert (last argv) (users h)\<rparr>
          else if cmd = ''userdel'' then h\<lparr>users := users h - {last argv}\<rparr>
          else if cmd = ''groupdel'' then h\<lparr>groups := groups h - {last argv}\<rparr>
          else h)"

text \<open>\<open>subprocess.call(argv)\<close> where the caller drops the returned exit status, as every
  call site of the charm does. Starting the process raises \<open>FileNotFoundError\<close> when
  the program is not found on the search path (and \<open>IndexError\<close> on an empty argument
  list); once the process has started, nothing it does makes the call raise.\<close>

definition call :: "env \<Rightarrow> string list \<Rightarrow> step" where
  "call env argv h =
     (case argv of
        [] \<Rightarrow> (Raise IndexError, record_event (Call argv) h)
      | cmd # args \<Rightarrow>
          if cmd \<notin> programs h
          then (Raise (FileNotFoundError cmd), record_event (Call argv) h)
          else (Ok, record_event (Call argv)
                      (if exit_status env argv h = 0 then tool_effect argv h else h)))"

text \<open>\<open>shlex.split\<close> of a command line without quotes or escapes.\<close>

definition shlex_split :: "string \<Rightarrow> string list" where
  "shlex_split s = filter (\<lambda>w. w \<noteq> []) (split (CHR '' '') s)"

text \<open>\<open>Path(p).unlink()\<close>, with \<open>missing_ok\<close> left at its default \<open>False\<close>.\<close>

definition unlink :: "path \<Rightarrow> step" where
  "unlink p h =
     (let h1 = record_event (Unlink p) h
      in if p \<in> dirs h then (Raise (IsADirectoryError p), h1)
         else if files h p = None then (Raise (FileNotFoundError p), h1)
         else (Ok, h1\<lparr>files := (files h)(p := None)\<rparr>))"

text \<open>\<open>shutil.rmtree(p)\<close>, with \<open>ignore_errors\<close> left at its default \<open>False\<close>.\<close>

definition remove_tree :: "path \<Rightarrow> host \<Rightarrow> host" where
  "remove_tree d h =
     h\<lparr>files := (\<lambda>p. if under d p then None else files h p),
       dirs := {p \<in> dirs h. \<not> under d p}\<rparr>"

definition rmtree :: "path \<Rightarrow> step" where
  "rmtree p h =
     (let h1 = record_event (RmTree p) h
      in if p \<in> dirs h then (Ok, remove_tree p h1)
         else if files h p = None then (Raise (FileNotFoundError p), h1)
         else (Raise (NotADirectoryError p), h1))"

text \<open>\<open>Path(p).mkdir()\<close> and \<open>Path(p).mkdir(parents=True)\<close>.\<close>

definition mkdir :: "path \<Rightarrow> step" where
  "mkdir p h =
     (let h1 = record_event (Mkdir p) h
      in if path_exists p h then (Raise (FileExistsError p), h1)
         else if dirname p \<notin> dirs h then (Raise (FileNotFoundError p), h1)
         else (Ok, h1\<lparr>dirs := insert p (dirs h)\<rparr>))"

definition mkdir_parents :: "path \<Rightarrow> step" where
  "mkdir_parents p h =
     (let h1 = record_event (Mkdir p) h
      in if path_exists p h then (Raise (FileExistsError p), h1)
         else if \<exists>a \<in> set (ancestors p). files h a \<noteq> None
           then (Raise (NotADirectoryError p), h1)
         else (Ok, h1\<lparr>dirs := insert p (set (ancestors p) \<union> dirs h)\<rparr>))"

text \<open>Creating or replacing the regular file \<open>p\<close>: its directory must exist.\<close>

definition put_file :: "path \<Rightarrow> string \<Rightarrow> host \<Rightarrow> outcome \<times> host" where
  "put_file p content h =
     (if p \<in> dirs h then (Raise (IsADirectoryError p), h)
      else if dirname p \<notin> dirs h then (Raise (FileNotFoundError p), h)
      else (Ok, h\<lparr>files := (files h)(p \<mapsto> content)\<rparr>))"

text \<open>\<open>shutil.copyfile(src, dst)\<close>; \<open>shutil.copy2(src, dst)\<close> copies into \<open>dst\<close> when
  \<open>dst\<close> is a directory.\<close>

definition copyfile :: "path \<Rightarrow> path \<Rightarrow> step" where
  "copyfile src dst h =
     (let h1 = record_event (Copy src dst) h
      in case files h src of
           None \<Rightarrow> (Raise (if src \<in> dirs h then IsADirectoryError src
                          else FileNotFoundError src), h1)
         | Some content \<Rightarrow> put_file dst content h1)"

definition copy2 :: "path \<Rightarrow> path \<Rightarrow> step" where
  "copy2 src dst h =
     copyfile src (if dst \<in> dirs h then dst @ ''/'' @ basename src else dst) h"

text \<open>\<open>open(p, "w")\<close> creates the file or truncates it; \<open>f.write(text)\<close> with the close
  of the file puts the text there. \<open>Path(p).write_text(text)\<close> is the two together.\<close>

definition open_w :: "path \<Rightarrow> step" where
  "open_w p h = put_file p [] (record_event (OpenW p) h)"

definition f_write :: "path \<Rightarrow> string \<Rightarrow> step" where
  "f_write p text h =
     (let h1 = record_event (Write p text) h
      in (Ok, h1\<lparr>files := (files h)(p \<mapsto> (case files h p of
                                              None \<Rightarrow> text
                                            | Some written \<Rightarrow> written @ text))\<rparr>))"

definition write_text :: "path \<Rightarrow> string \<Rightarrow> step" where
  "write_text p text = seq [open_w p, f_write p text]"

text \<open>\<open>shutil.chown(p, user=u, group=g)\<close>: the names are looked up first.\<close>

definition chown :: "path \<Rightarrow> string \<Rightarrow> string \<Rightarrow> step" where
  "chown p u g h =
     (let h1 = record_event (Chown p u g) h
      in if u \<notin> users h then (Raise (LookupError u), h1)
         else if g \<notin> groups h then (Raise (LookupError g), h1)
         else if \<not> path_exists p h then (Raise (FileNotFoundError p), h1)
         else (Ok, h1))"

text \<open>\<open>request.urlretrieve(url, filename)\<close>: nothing is written when the URL cannot be
  opened; a download that ends early leaves what it got and raises.\<close>

definition urlretrieve :: "env \<Rightarrow> string \<Rightarrow> path \<Rightarrow> step" where
  "urlretrieve env url filename h =
     (let h1 = record_event (UrlRetrieve url filename) h
      in case urlopen env url of
           Unreachable \<Rightarrow> (Raise URLError, h1)
         | Short part \<Rightarrow>
             (case put_file filename part h1 of
                (Ok, h2) \<Rightarrow> (Raise ContentTooShortError, h2)
              | r \<Rightarrow> r)
         | Complete content \<Rightarrow> put_file filename content h1)"

text \<open>\<open>tarfile.open(p, 'r')\<close> raises \<open>ReadError\<close> on bytes that are no archive. The
  archive object reads from the file, so \<open>extractall\<close> takes the path.\<close>

definition tarfile_open :: "env \<Rightarrow> path \<Rightarrow> step" where
  "tarfile_open env p h =
     (let h1 = record_event (TarOpen p) h
      in case files h p of
           None \<Rightarrow> (Raise (FileNotFoundError p), h1)
         | Some content \<Rightarrow>
             (case tarfile env content of
                NotATar \<Rightarrow> (Raise ReadError, h1)
              | _ \<Rightarrow> (Ok, h1)))"

definition extract_member :: "path \<Rightarrow> path \<times> string \<Rightarrow> host \<Rightarrow> host" where
  "extract_member d m h =
     (let p = d @ ''/'' @ fst m
      in h\<lparr>files := (files h)(p \<mapsto> snd m),
           dirs := {a \<in> set (ancestors p). under d a} \<union> dirs h\<rparr>)"

definition extractall :: "env \<Rightarrow> path \<Rightarrow> path \<Rightarrow> step" where
  "extractall env p d h =
     (let h1 = record_event (ExtractAll d) h
      in case files h p of
           None \<Rightarrow> (Raise (FileNotFoundError p), h1)
         | Some content \<Rightarrow>
             (case tarfile env content of
                NotATar \<Rightarrow> (Raise ReadError, h1)
              | Tar ms \<Rightarrow> (Ok, fold (extract_member d) ms h1)
              | Truncated ms \<Rightarrow> (Raise ExtractError, fold (extract_member d) ms h1)))"

text \<open>\<open>with TemporaryDirectory(prefix="charmtmp") as tmp_dir: body\<close>. The directory is
  removed with all it holds when the block is left, by an exception too.\<close>

definition TemporaryDirectory :: "env \<Rightarrow> (path \<Rightarrow> step) \<Rightarrow> step" where
  "TemporaryDirectory env body h =
     (let d = mkdtemp env;
          h1 = record_event (MkDTemp d) h
      in if dirname d \<notin> dirs h then (Raise (FileNotFoundError d), h1)
         else (case body d (h1\<lparr>dirs := insert d (dirs h)\<rparr>) of
                 (r, h2) \<Rightarrow> (r, remove_tree d (record_event (RmTree d) h2))))"

text \<open>\<open>str(v)\<close> of a configuration value.\<close>

definition py_str :: "string option \<Rightarrow> string" where
  "py_str v = (case v of None \<Rightarrow> ''None'' | Some s \<Rightarrow> s)"

subsection \<open>The charm's functions\<close>

definition run_if :: "(host \<Rightarrow> bool) \<Rightarrow> step \<Rightarrow> step" where
  "run_if c f h = (if c h then f h else (Ok, h))"

definition template_dir :: "env \<Rightarrow> path" where
  "template_dir env = charm_dir env @ ''/templates''"

text \<open>\<open>_install_freeipmi\<close>. \<open>subprocess.run\<close> starts the query as \<open>subprocess.call\<close>
  does, and raises as it does when \<open>dpkg\<close> is not found; what it captures of the query's
  standard output is given by the environment.\<close>

definition install_freeipmi :: "env \<Rightarrow> step" where
  "install_freeipmi env h =
     (let query = [''dpkg'', ''-l'', ''freeipmi''];
          result_stdout = stdout env query h
      in case call env query h of
           (Raise e, h1) \<Rightarrow> (Raise e, h1)
         | (Ok, h1) \<Rightarrow>
             if \<not> str_in ''no packages found'' (lower result_stdout)
             then call env [''apt-get'', ''install'', ''-y'', ''freeipmi''] h1
             else (Ok, h1))"

text \<open>\<open>_create_ipmi_exporter_user_group\<close>.\<close>

definition create_ipmi_exporter_user_group :: "env \<Rightarrow> step" where
  "create_ipmi_exporter_user_group env =
     (let group = ''ipmi_exporter'';
          user = ''ipmi_exporter''
      in seq [call env (shlex_split (''groupadd '' @ group)),
              call env (shlex_split (''useradd --system --no-create-home --gid '' @ group
                                      @ '' --shell /usr/sbin/nologin '' @ user))])"

text \<open>\<open>_create_ipmi_exporter_configuration\<close>.\<close>

definition create_ipmi_exporter_configuration :: "env \<Rightarrow> step" where
  "create_ipmi_exporter_configuration env =
     (let config_file = ''ipmi_exporter.yaml'';
          config_path = ''/etc/ipmi_exporter''
      in seq [run_if (\<lambda>h. \<not> path_exists config_path h) (mkdir config_path),
              copyfile (template_dir env @ ''/'' @ config_file)
                       (''/etc/ipmi_exporter/'' @ config_file)])"

text \<open>\<open>_create_sudoers_file_for_ipmi_exporter\<close>. In the source's string literal a
  backslash ends each line but the last two, so the lines are joined; the last line of
  the rule ends in a newline, and sixteen spaces follow it.\<close>

definition sudoers :: path where
  "sudoers = ''/etc/sudoers.d/ipmi_exporter''"

definition sudoers_rule :: string where
  "sudoers_rule = concat
     [''ipmi_exporter ALL = NOPASSWD: /usr/sbin/ipmimonitoring,'',
      ''                              /usr/sbin/ipmi-sensors,'',
      ''                              /usr/sbin/ipmi-dcmi,'',
      ''                              /usr/sbin/ipmi-raw,'',
      ''                              /usr/sbin/bmc-info,'',
      ''                              /usr/sbin/ipmi-chassis,'',
      ''                              /usr/sbin/ipmi-sel                '', [CHR 0x0A],
      ''                '']"

definition sudoers_statements :: "step list" where
  "sudoers_statements = [open_w sudoers, f_write sudoers sudoers_rule]"

definition create_sudoers_file_for_ipmi_exporter :: step where
  "create_sudoers_file_for_ipmi_exporter = seq sudoers_statements"

text \<open>\<open>_create_systemd_service_unit\<close>.\<close>

definition create_systemd_service_unit :: "env \<Rightarrow> step" where
  "create_systemd_service_unit env =
     (let service = ''ipmi_exporter.service''
      in seq [copyfile (template_dir env @ ''/'' @ service) (''/etc/systemd/system/'' @ service),
              call env [''systemctl'', ''daemon-reload''],
              call env [''systemctl'', ''enable'', service]])"

text \<open>\<open>_render_sysconfig\<close>. \<open>get_template\<close> reads the template file; the context maps
  a name to a string or to \<open>None\<close>. The template is rendered after the old file is
  unlinked and before the new one is opened.\<close>

definition sysconfig_target :: path where
  "sysconfig_target = ''/etc/sysconfig/ipmi_exporter''"

definition render_sysconfig :: "env \<Rightarrow> (string \<rightharpoonup> string option) \<Rightarrow> step" where
  "render_sysconfig env context =
     (let template_file = ''ipmi_exporter.tmpl'';
          sysconfig = ''/etc/sysconfig'';
          varlib = ''/var/lib/ipmi_exporter'';
          textfile_dir = varlib @ ''/textfile_collector'';
          target = sysconfig @ ''/ipmi_exporter''
      in seq [run_if (\<lambda>h. \<not> path_exists sysconfig h) (mkdir sysconfig),
              run_if (\<lambda>h. \<not> path_exists textfile_dir h) (mkdir_parents textfile_dir),
              chown varlib ''ipmi_exporter'' ''ipmi_exporter'',
              chown textfile_dir ''ipmi_exporter'' ''ipmi_exporter'',
              (\<lambda>h. case files h (template_dir env @ ''/'' @ template_file) of
                      None \<Rightarrow> (Raise (TemplateNotFound template_file), h)
                    | Some template \<Rightarrow>
                        seq [run_if (path_exists target) (unlink target),
                             (\<lambda>h. case jinja env template context of
                                     Inl e \<Rightarrow> (Raise e, h)
                                   | Inr text \<Rightarrow> write_text target text h)] h)])"

text \<open>\<open>_install_ipmi_exporter\<close>. Its lines 126 to 143 (download, extract, copy the
  binary, clean up) are \<open>download_and_extract\<close>.\<close>

definition archive :: path where
  "archive = ''/tmp/ipmi-exporter.tar.gz''"

definition release_url :: "string \<Rightarrow> string \<Rightarrow> string" where
  "release_url version arch =
     ''https://github.com/prometheus-community/ipmi_exporter/releases/download/v'' @ version
       @ ''/ipmi_exporter-'' @ version @ ''.linux-'' @ arch @ ''.tar.gz''"

definition download_and_extract :: "env \<Rightarrow> string \<Rightarrow> string \<Rightarrow> step" where
  "download_and_extract env version arch =
     seq [urlretrieve env (release_url version arch) archive,
          tarfile_open env archive,
          TemporaryDirectory env (\<lambda>tmp_dir.
            seq [extractall env archive tmp_dir,
                 copy2 (tmp_dir @ ''/'' @ ''ipmi_exporter-'' @ version @ ''.linux-'' @ arch
                          @ ''/ipmi_exporter'')
                       ''/usr/bin/ipmi_exporter'']),
          unlink archive]"

definition install_ipmi_exporter :: "env \<Rightarrow> string \<Rightarrow> string \<Rightarrow> string \<Rightarrow> step" where
  "install_ipmi_exporter env version arch listen_address =
     seq [download_and_extract env version arch,
          install_freeipmi env,
          create_ipmi_exporter_user_group env,
          create_ipmi_exporter_configuration env,
          create_sudoers_file_for_ipmi_exporter,
          create_systemd_service_unit env,
          render_sysconfig env [''listen_address'' \<mapsto> Some listen_address]]"

text \<open>\<open>_uninstall_ipmi_exporter\<close>.\<close>

definition uninstall_ipmi_exporter :: "env \<Rightarrow> step" where
  "uninstall_ipmi_exporter env =
     (let user = ''ipmi_exporter'';
          group = ''ipmi_exporter''
      in seq [unlink ''/usr/bin/ipmi_exporter'',
              unlink ''/etc/systemd/system/ipmi_exporter.service'',
              unlink ''/etc/sysconfig/ipmi_exporter'',
              unlink ''/etc/ipmi_exporter/ipmi_exporter.yaml'',
              rmtree ''/var/lib/ipmi_exporter'',
              call env [''userdel'', user],
              call env [''groupdel'', group]])"

text \<open>The files that \<open>_uninstall_ipmi_exporter\<close> unlinks, in its order, and the directory
  it removes after them.\<close>

definition uninstall_files :: "path list" where
  "uninstall_files =
     [''/usr/bin/ipmi_exporter'', ''/etc/systemd/system/ipmi_exporter.service'',
      ''/etc/sysconfig/ipmi_exporter'', ''/etc/ipmi_exporter/ipmi_exporter.yaml'']"

definition state_dir :: path where
  "state_dir = ''/var/lib/ipmi_exporter''"

subsection \<open>The charm's event handlers\<close>

definition set_status :: "status \<Rightarrow> step" where
  "set_status st h = (Ok, h\<lparr>status := Some st\<rparr>)"

text \<open>\<open>_set_charm_version\<close>. \<open>subprocess.run\<close> raises when the executable is missing;
  \<open>re.search\<close> returns \<open>None\<close> when nothing matches, and \<open>None.group(0)\<close> raises
  \<open>AttributeError\<close>.\<close>

definition set_charm_version :: "env \<Rightarrow> step" where
  "set_charm_version env h =
     (let command = [''/usr/bin/ipmi_exporter'', ''--version''];
          h1 = record_event (Call command) h
      in if files h ''/usr/bin/ipmi_exporter'' = None
         then (Raise (FileNotFoundError ''/usr/bin/ipmi_exporter''), h1)
         else (case re_search version_pattern (stdout env command h) of
                 None \<Rightarrow> (Raise AttributeError, h1)
               | Some version \<Rightarrow> (Ok, h1\<lparr>workload_version := Some version\<rparr>)))"

definition on_install :: "env \<Rightarrow> step" where
  "on_install env =
     (let la = config env ''listen-address'';
          zev = config env ''ipmi-exporter-version''
      in seq [set_status (MaintenanceStatus ''Installing ipmi-exporter''),
              install_ipmi_exporter env (py_str zev) ''amd64'' (py_str la),
              set_charm_version env,
              set_status (ActiveStatus ''ipmi-exporter installed'')])"

definition on_upgrade_charm :: "env \<Rightarrow> step" where
  "on_upgrade_charm env =
     seq [set_status (MaintenanceStatus ''Upgrading ipmi-exporter''),
          set_charm_version env,
          set_status (ActiveStatus ''ipmi-exporter upgraded'')]"

definition on_config_changed :: "env \<Rightarrow> step" where
  "on_config_changed env =
     seq [render_sysconfig env [''listen_address'' \<mapsto> config env ''listen-address''],
          call env [''systemctl'', ''restart'', ''ipmi_exporter''],
          set_host_port env]"

definition on_start :: "env \<Rightarrow> step" where
  "on_start env =
     seq [call env [''systemctl'', ''start'', ''ipmi_exporter''],
          set_status (ActiveStatus ''ipmi-exporter started'')]"

definition on_stop :: "env \<Rightarrow> step" where
  "on_stop env =
     seq [call env [''systemctl'', ''stop'', ''ipmi_exporter''],
          call env [''systemctl'', ''disable'', ''ipmi_exporter''],
          uninstall_ipmi_exporter env]"

subsection \<open>Reading a sudoers file\<close>

text \<open>
  What a sudoers file grants, read from its whole text. A backslash before a newline
  joins two lines; the text of a line from \<open>#\<close> on is a comment. Every line that is not
  blank is a rule \<open>user host = spec, spec, ...\<close>. A spec is a command, which may be
  preceded by a run-as list in parentheses and by the tag \<open>NOPASSWD:\<close> or \<open>PASSWD:\<close>;
  a tag holds for the specs after it as well. Each spec of each rule is one grant.
  Nothing of a line is dropped: a line without \<open>=\<close> is a grant of the empty command
  whose grantee is the whole line, and whatever else precedes a command stays part of
  the command.
\<close>

record grant =
  grantee :: string
  on_host :: string
  run_as :: string
  passwordless :: bool
  command :: string

definition is_space :: "char \<Rightarrow> bool" where
  "is_space c = (c = CHR '' '' \<or> c = CHR 0x0A \<or> c = CHR 0x09)"

definition strip :: "string \<Rightarrow> string" where
  "strip s = rev (dropWhile is_space (rev (dropWhile is_space s)))"

fun join_continuations :: "string \<Rightarrow> string" where
  "join_continuations (c # d # cs) =
     (if c = CHR 0x5C \<and> d = CHR 0x0A then join_continuations cs
      else c # join_continuations (d # cs))"
| "join_continuations cs = cs"

definition uncomment :: "string \<Rightarrow> string" where
  "uncomment line = takeWhile (\<lambda>c. c \<noteq> CHR ''#'') line"

text \<open>The run-as list of a spec (empty when there is none) and the text after it.\<close>

definition read_run_as :: "string \<Rightarrow> string \<times> string" where
  "read_run_as spec =
     (case spec of
        [] \<Rightarrow> ([], [])
      | c # cs \<Rightarrow>
          if c = CHR ''('' \<and> CHR '')'' \<in> set cs
          then (takeWhile (\<lambda>c. c \<noteq> CHR '')'') cs,
                strip (tl (dropWhile (\<lambda>c. c \<noteq> CHR '')'') cs)))
          else ([], spec))"

text \<open>The specs of a rule, from left to right; \<open>pw\<close> says whether a \<open>NOPASSWD:\<close> tag is
  in force.\<close>

fun read_specs :: "string \<Rightarrow> string \<Rightarrow> bool \<Rightarrow> string list \<Rightarrow> grant list" where
  "read_specs u hs pw [] = []"
| "read_specs u hs pw (spec # specs) =
     (let (runas, rest) = read_run_as (strip spec);
          pw' = (if prefix ''NOPASSWD:'' rest then True
                 else if prefix ''PASSWD:'' rest then False
                 else pw);
          cmd = (if prefix ''NOPASSWD:'' rest then strip (drop 9 rest)
                 else if prefix ''PASSWD:'' rest then strip (drop 7 rest)
                 else rest)
      in \<lparr>grantee = u, on_host = hs, run_as = runas, passwordless = pw', command = cmd\<rparr>
           # read_specs u hs pw' specs)"

definition read_rule :: "string \<Rightarrow> grant list" where
  "read_rule line =
     (let rule = strip (uncomment line)
      in if rule = [] then []
         else if CHR ''='' \<notin> set rule
           then [\<lparr>grantee = rule, on_host = [], run_as = [], passwordless = False,
                  command = []\<rparr>]
         else
           (let subject = strip (takeWhile (\<lambda>c. c \<noteq> CHR ''='') rule);
                specs = tl (dropWhile (\<lambda>c. c \<noteq> CHR ''='') rule)
            in read_specs (takeWhile (\<lambda>c. \<not> is_space c) subject)
                 (strip (dropWhile (\<lambda>c. \<not> is_space c) subject))
                 False (split (CHR '','') specs)))"

definition sudoers_grants :: "string \<Rightarrow> grant list" where
  "sudoers_grants content =
     concat (map read_rule (split (CHR 0x0A) (join_continuations content)))"

definition allow_list :: "string list" where
  "allow_list =
     [''/usr/sbin/ipmimonitoring'', ''/usr/sbin/ipmi-sensors'', ''/usr/sbin/ipmi-dcmi'',
      ''/usr/sbin/ipmi-raw'', ''/usr/sbin/bmc-info'', ''/usr/sbin/ipmi-chassis'',
      ''/usr/sbin/ipmi-sel'']"

text \<open>The grant of one command to the account \<open>ipmi_exporter\<close>: on every host, as the
  default user, without a password.\<close>

definition helper_grant :: "string \<Rightarrow> grant" where
  "helper_grant cmd =
     \<lparr>grantee = ''ipmi_exporter'', on_host = ''ALL'', run_as = [], passwordless = True,
      command = cmd\<rparr>"

subsection \<open>Provisioning steps\<close>

text \<open>
  The seven steps of provisioning in their fixed order, and the step that an operation
  of the log belongs to, read off the operation itself: the command it runs or the path
  it touches. An operation that belongs to no step has none.
\<close>

datatype provisioning =
  Binary | Dependency | Account | Configuration | Grant | ServiceUnit | Sysconfig


fun step_of :: "env \<Rightarrow> event \<Rightarrow> provisioning option" where
  "step_of env (UrlRetrieve url p) = (if p = archive then Some Binary else None)"
| "step_of env (TarOpen p) = (if p = archive then Some Binary else None)"
| "step_of env (MkDTemp p) = (if p = mkdtemp env then Some Binary else None)"
| "step_of env (ExtractAll p) = (if p = mkdtemp env then Some Binary else None)"
| "step_of env (RmTree p) = (if p = mkdtemp env then Some Binary else None)"
| "step_of env (Copy src dst) =
     (if under ''/usr/bin/ipmi_exporter'' dst then Some Binary
      else if dst = ''/etc/ipmi_exporter/ipmi_exporter.yaml'' then Some Configuration
      else if dst = ''/etc/systemd/system/ipmi_exporter.service'' then Some ServiceUnit
      else None)"
| "step_of env (Unlink p) =
     (if p = archive then Some Binary
      else if p = sysconfig_target then Some Sysconfig
      else None)"
| "step_of env (Call argv) =
     (if take 1 argv = [''dpkg''] \<or> take 1 argv = [''apt-get''] then Some Dependency
      else if take 1 argv = [''groupadd''] \<or> take 1 argv = [''useradd''] then Some Account
      else if take 1 argv = [''systemctl''] then Some ServiceUnit
      else None)"
| "step_of env (Mkdir p) =
     (if p = ''/etc/ipmi_exporter'' then Some Configuration
      else if p = ''/etc/sysconfig'' \<or> p = ''/var/lib/ipmi_exporter/textfile_collector''
        then Some Sysconfig
      else None)"
| "step_of env (OpenW p) =
     (if p = sudoers then Some Grant
      else if p = sysconfig_target then Some Sysconfig
      else None)"
| "step_of env (Write p text) =
     (if p = sudoers then Some Grant
      else if p = sysconfig_target then Some Sysconfig
      else None)"
| "step_of env (Chown p u g) =
     (if p = ''/var/lib/ipmi_exporter'' \<or> p = ''/var/lib/ipmi_exporter/textfile_collector''
        then Some Sysconfig
      else None)"
| "step_of env (Rename src dst) = None"


text \<open>What a statement adds to the log: operations of step \<open>k\<close> only; at least one of
  them; or none only when it returns normally.\<close>

definition only :: "env \<Rightarrow> provisioning \<Rightarrow> step \<Rightarrow> bool" where
  "only env k f =
     (\<forall>h. \<exists>evs. log (snd (f h)) = log h @ evs \<and> (\<forall>e \<in> set evs. step_of env e = Some k))"

definition emits :: "env \<Rightarrow> provisioning \<Rightarrow> step \<Rightarrow> bool" where
  "emits env k f =
     (\<forall>h. \<exists>evs. log (snd (f h)) = log h @ evs \<and> evs \<noteq> []
                 \<and> (\<forall>e \<in> set evs. step_of env e = Some k))"

definition quiet_or_emits :: "env \<Rightarrow> provisioning \<Rightarrow> step \<Rightarrow> bool" where
  "quiet_or_emits env k f =
     (\<forall>h. \<exists>evs. log (snd (f h)) = log h @ evs
                 \<and> (\<forall>e \<in> set evs. step_of env e = Some k)
                 \<and> (evs = [] \<longrightarrow> fst (f h) = Ok))"

subsection \<open>Sample hosts\<close>

text \<open>An environment in which everything works: release 1.9.1 downloads, its archive
  holds the binary, every command exits with status 0, and the renderer appends the
  listen address to the template text.\<close>

definition sample_env :: env where
  "sample_env =
     \<lparr>config = [''listen-address'' \<mapsto> ''0.0.0.0:9290'', ''ipmi-exporter-version'' \<mapsto> ''1.9.1''],
      charm_dir = ''/charm/src'',
      urlopen = (\<lambda>url. Complete ''tarball''),
      tarfile = (\<lambda>bytes. if bytes = ''tarball''
                          then Tar [(''ipmi_exporter-1.9.1.linux-amd64/ipmi_exporter'', ''ELF'')]
                          else NotATar),
      mkdtemp = ''/tmp/charmtmp0a1b2c3d'',
      exit_status = (\<lambda>argv h. 0),
      stdout = (\<lambda>argv h. if argv = [''dpkg'', ''-l'', ''freeipmi'']
                           then ''ii  freeipmi  1.6.9-2  amd64  GNU implementation of IPMI''
                           else ''ipmi_exporter, version 1.9.1 (branch: HEAD, revision: 1a2b3c)''),
      jinja = (\<lambda>template context.
                 case context ''listen_address'' of
                   Some (Some v) \<Rightarrow> Inr (template @ v)
                 | _ \<Rightarrow> Inl TemplateError),
      set_host_port = (\<lambda>h. (Ok, h))\<rparr>"

text \<open>A host before the install event: the charm's templates are unpacked, the system
  tools are on the search path, nothing of the exporter is there.\<close>

definition fresh_host :: host where
  "fresh_host =
     \<lparr>files = [''/charm/src/templates/ipmi_exporter.yaml'' \<mapsto> ''modules: {}'',
               ''/charm/src/templates/ipmi_exporter.service'' \<mapsto> ''[Unit]'',
               ''/charm/src/templates/ipmi_exporter.tmpl'' \<mapsto> ''ARGS=--web.listen-address=''],
      dirs = {''/'', ''/tmp'', ''/etc'', ''/etc/sudoers.d'', ''/etc/systemd'',
              ''/etc/systemd/system'', ''/usr'', ''/usr/bin'', ''/var'', ''/var/lib'',
              ''/charm'', ''/charm/src'', ''/charm/src/templates''},
      programs = {''systemctl'', ''dpkg'', ''apt-get'', ''groupadd'', ''useradd'',
                  ''userdel'', ''groupdel''},
      users = {''root''},
      groups = {''root''},
      log = [],
      status = None,
      workload_version = None\<rparr>"

text \<open>A host on which the exporter is installed.\<close>

definition installed_host :: host where
  "installed_host =
     \<lparr>files = [''/charm/src/templates/ipmi_exporter.tmpl'' \<mapsto> ''ARGS=--web.listen-address='',
               ''/usr/bin/ipmi_exporter'' \<mapsto> ''ELF'',
               ''/etc/systemd/system/ipmi_exporter.service'' \<mapsto> ''[Unit]'',
               ''/etc/sysconfig/ipmi_exporter'' \<mapsto> ''ARGS=--web.listen-address=127.0.0.1:9999'',
               ''/etc/ipmi_exporter/ipmi_exporter.yaml'' \<mapsto> ''modules: {}'',
               ''/etc/sudoers.d/ipmi_exporter'' \<mapsto> sudoers_rule],
      dirs = {''/'', ''/tmp'', ''/etc'', ''/etc/sudoers.d'', ''/etc/systemd'',
              ''/etc/systemd/system'', ''/etc/sysconfig'', ''/etc/ipmi_exporter'',
              ''/usr'', ''/usr/bin'', ''/var'', ''/var/lib'', ''/var/lib/ipmi_exporter'',
              ''/var/lib/ipmi_exporter/textfile_collector'',
              ''/charm'', ''/charm/src'', ''/charm/src/templates''},
      programs = {''systemctl'', ''dpkg'', ''apt-get'', ''groupadd'', ''useradd'',
                  ''userdel'', ''groupdel''},
      users = {''root'', ''ipmi_exporter''},
      groups = {''root'', ''ipmi_exporter''},
      log = [],
      status = Some (ActiveStatus ''ipmi-exporter started''),
      workload_version = Some ''1.9.1''\<rparr>"

text \<open>The installed host after its sysconfig file was removed by hand.\<close>

definition host_without_sysconfig :: host where
  "host_without_sysconfig =
     installed_host\<lparr>files := (files installed_host)(''/etc/sysconfig/ipmi_exporter'' := None)\<rparr>"

text \<open>The sample environment with a package query that reports the package missing on
  its standard output, and with a binary whose version text has no dotted triple.\<close>

definition absent_env :: env where
  "absent_env =
     sample_env\<lparr>stdout := (\<lambda>argv h. ''dpkg-query: no packages found matching freeipmi'')\<rparr>"

definition odd_version_env :: env where
  "odd_version_env = sample_env\<lparr>stdout := (\<lambda>argv h. ''ipmi_exporter build 20240115'')\<rparr>"

text \<open>The sample environment with an archive whose extraction fails after its first
  member.\<close>

definition truncated_env :: env where
  "truncated_env =
     sample_env\<lparr>tarfile := (\<lambda>bytes.
       Truncated [(''ipmi_exporter-1.9.1.linux-amd64/LICENSE'', ''MIT'')])\<rparr>"

text \<open>The sample environment with every command failing (exit status 1).\<close>

definition failing_env :: env where
  "failing_env = sample_env\<lparr>exit_status := (\<lambda>argv h. 1)\<rparr>"

section \<open>Properties\<close>

subsection \<open>Sequences and library operations\<close>

lemma seq_ok_iff:
  "fst (seq (f # fs) h) = Ok \<longleftrightarrow> fst (f h) = Ok \<and> fst (seq fs (snd (f h))) = Ok"
  by (cases "f h") (auto split: outcome.splits)

lemma seq_Cons_ok: "fst (f h) = Ok \<Longrightarrow> seq (f # fs) h = seq fs (snd (f h))"
  by (cases "f h") (auto split: outcome.splits)

lemma seq_Cons_raise: "fst (f h) = Raise e \<Longrightarrow> seq (f # fs) h = (Raise e, snd (f h))"
  by (cases "f h") (auto split: outcome.splits)

lemma tool_effect_frame:
  "files (tool_effect argv h) = files h"
  "dirs (tool_effect argv h) = dirs h"
  "programs (tool_effect argv h) = programs h"
  "log (tool_effect argv h) = log h"
  "status (tool_effect argv h) = status h"
  "workload_version (tool_effect argv h) = workload_version h"
  by (auto simp: tool_effect_def split: list.splits)

lemma call_ok: "fst (call env (cmd # args) h) = Ok \<longleftrightarrow> cmd \<in> programs h"
  by (simp add: call_def)

lemma call_raise:
  "cmd \<notin> programs h \<Longrightarrow>
   call env (cmd # args) h = (Raise (FileNotFoundError cmd), record_event (Call (cmd # args)) h)"
  by (simp add: call_def)

lemma call_frame:
  "files (snd (call env argv h)) = files h"
  "dirs (snd (call env argv h)) = dirs h"
  "programs (snd (call env argv h)) = programs h"
  "log (snd (call env argv h)) = log h @ [Call argv]"
  by (simp_all add: call_def record_event_def tool_effect_frame split: list.splits)

lemma call_systemctl:
  "status (snd (call env (''systemctl'' # args) h)) = status h"
  "users (snd (call env (''systemctl'' # args) h)) = users h"
  "groups (snd (call env (''systemctl'' # args) h)) = groups h"
  by (simp_all add: call_def record_event_def tool_effect_def)

lemma unlink_ok: "fst (unlink p h) = Ok \<longleftrightarrow> p \<notin> dirs h \<and> files h p \<noteq> None"
  by (simp add: unlink_def Let_def)

lemma unlink_frame:
  "files (snd (unlink p h)) q = (if q = p \<and> p \<notin> dirs h then None else files h q)"
  "dirs (snd (unlink p h)) = dirs h"
  "programs (snd (unlink p h)) = programs h"
  "users (snd (unlink p h)) = users h"
  "groups (snd (unlink p h)) = groups h"
  "log (snd (unlink p h)) = log h @ [Unlink p]"
  by (auto simp: unlink_def Let_def record_event_def)

lemma unlink_raise:
  "files h p = None \<Longrightarrow> p \<notin> dirs h \<Longrightarrow> fst (unlink p h) = Raise (FileNotFoundError p)"
  by (simp add: unlink_def Let_def)

lemma rmtree_frame:
  "programs (snd (rmtree p h)) = programs h"
  "users (snd (rmtree p h)) = users h"
  "groups (snd (rmtree p h)) = groups h"
  "log (snd (rmtree p h)) = log h @ [RmTree p]"
  by (simp_all add: rmtree_def Let_def record_event_def remove_tree_def)

lemma rmtree_raise:
  "files h p = None \<Longrightarrow> p \<notin> dirs h \<Longrightarrow> fst (rmtree p h) = Raise (FileNotFoundError p)"
  by (simp add: rmtree_def Let_def)

lemma rmtree_ok: "fst (rmtree p h) = Ok \<longleftrightarrow> p \<in> dirs h"
  by (simp add: rmtree_def Let_def)

lemma seq_Cons_eq_Ok:
  "seq (f # fs) h = (Ok, h') \<longleftrightarrow> fst (f h) = Ok \<and> seq fs (snd (f h)) = (Ok, h')"
  by (cases "f h") (auto split: outcome.splits)

lemma run_if_files:
  "(\<And>h. files (snd (f h)) = files h) \<Longrightarrow> files (snd (run_if c f h)) = files h"
  by (simp add: run_if_def)

lemma mkdir_files: "files (snd (mkdir p h)) = files h"
  by (simp add: mkdir_def Let_def record_event_def)

lemma mkdir_parents_files: "files (snd (mkdir_parents p h)) = files h"
  by (simp add: mkdir_parents_def Let_def record_event_def)

lemma chown_files: "files (snd (chown p u g h)) = files h"
  by (simp add: chown_def Let_def record_event_def)

lemma write_text_Ok:
  "write_text p text h = (Ok, h') \<Longrightarrow> files h' p = Some text"
  by (auto simp: write_text_def open_w_def f_write_def put_file_def record_event_def Let_def
      split: if_splits)

lemma seq_snoc_Ok:
  "seq (fs @ [f]) h = (Ok, h') \<longleftrightarrow> (\<exists>h1. seq fs h = (Ok, h1) \<and> f h1 = (Ok, h'))"
proof (induction fs arbitrary: h)
  case Nil
  show ?case by (cases "f h") (auto split: outcome.splits)
next
  case (Cons g gs)
  then show ?case by (cases "g h") (auto split: outcome.splits)
qed

lemma seq_Cons_cases:
  assumes "seq (f # fs) h = (r, h')"
  obtains e where "f h = (Raise e, h')" "r = Raise e"
  | h1 where "f h = (Ok, h1)" "seq fs h1 = (r, h')"
  using assms by (cases "f h") (auto split: outcome.splits)

lemma seq_preserves:
  "(\<And>f h. f \<in> set fs \<Longrightarrow> \<phi> (snd (f h)) = \<phi> h) \<Longrightarrow> \<phi> (snd (seq fs h)) = \<phi> h"
proof (induction fs arbitrary: h)
  case Nil
  show ?case by simp
next
  case (Cons g gs)
  have g: "\<phi> (snd (g h)) = \<phi> h" using Cons.prems by simp
  have gs: "\<phi> (snd (seq gs (snd (g h)))) = \<phi> (snd (g h))"
    using Cons.IH Cons.prems by simp
  show ?case
  proof (cases "fst (g h)")
    case Ok
    then show ?thesis using g gs by (simp add: seq_Cons_ok del: seq.simps)
  next
    case (Raise e)
    then show ?thesis using g by (simp add: seq_Cons_raise del: seq.simps)
  qed
qed

lemma seq_files:
  "(\<And>f h. f \<in> set fs \<Longrightarrow> files (snd (f h)) = files h) \<Longrightarrow> files (snd (seq fs h)) = files h"
  by (rule seq_preserves)

lemma seq_single: "seq [f] h = f h"
  by (cases "f h") (auto split: outcome.splits)

lemma seq_append_Ok: "seq fs h = (Ok, h1) \<Longrightarrow> seq (fs @ gs) h = seq gs h1"
proof (induction fs arbitrary: h)
  case Nil
  then show ?case by simp
next
  case (Cons f fs)
  then show ?case by (cases "f h") (auto split: outcome.splits)
qed

lemma seq_append_Raise: "seq fs h = (Raise e, h1) \<Longrightarrow> seq (fs @ gs) h = (Raise e, h1)"
proof (induction fs arbitrary: h)
  case Nil
  then show ?case by simp
next
  case (Cons f fs)
  then show ?case by (cases "f h") (auto split: outcome.splits)
qed

lemma seq_unlinks_raise:
  assumes "\<forall>q \<in> set pre. files h q \<noteq> None \<and> q \<notin> dirs h" "distinct (pre @ [p])"
    "files h p = None" "p \<notin> dirs h"
  shows "fst (seq (map unlink (pre @ p # post) @ rest) h) = Raise (FileNotFoundError p)
    \<and> log (snd (seq (map unlink (pre @ p # post) @ rest) h)) = log h @ map Unlink (pre @ [p])
    \<and> (\<forall>q. q \<notin> set pre \<longrightarrow> files (snd (seq (map unlink (pre @ p # post) @ rest) h)) q = files h q)
    \<and> dirs (snd (seq (map unlink (pre @ p # post) @ rest) h)) = dirs h
    \<and> users (snd (seq (map unlink (pre @ p # post) @ rest) h)) = users h
    \<and> groups (snd (seq (map unlink (pre @ p # post) @ rest) h)) = groups h"
  using assms
proof (induction pre arbitrary: h)
  case Nil
  have "fst (unlink p h) = Raise (FileNotFoundError p)"
    using Nil.prems by (simp add: unlink_raise)
  then have "seq (map unlink ([] @ p # post) @ rest) h = (Raise (FileNotFoundError p), snd (unlink p h))"
    by (simp add: seq_Cons_raise del: seq.simps)
  then show ?case using Nil.prems by (simp add: unlink_frame del: seq.simps)
next
  case (Cons a pre)
  let ?h1 = "snd (unlink a h)"
  have ok: "fst (unlink a h) = Ok" using Cons.prems by (simp add: unlink_ok)
  have step: "seq (map unlink ((a # pre) @ p # post) @ rest) h
      = seq (map unlink (pre @ p # post) @ rest) ?h1"
    using ok by (simp add: seq_Cons_ok del: seq.simps)
  have "\<forall>q \<in> set pre. files ?h1 q \<noteq> None \<and> q \<notin> dirs ?h1"
    using Cons.prems by (auto simp: unlink_frame)
  moreover have "distinct (pre @ [p])" using Cons.prems by simp
  moreover have "files ?h1 p = None" "p \<notin> dirs ?h1" using Cons.prems by (simp_all add: unlink_frame)
  ultimately have IH:
    "fst (seq (map unlink (pre @ p # post) @ rest) ?h1) = Raise (FileNotFoundError p)
    \<and> log (snd (seq (map unlink (pre @ p # post) @ rest) ?h1)) = log ?h1 @ map Unlink (pre @ [p])
    \<and> (\<forall>q. q \<notin> set pre \<longrightarrow> files (snd (seq (map unlink (pre @ p # post) @ rest) ?h1)) q = files ?h1 q)
    \<and> dirs (snd (seq (map unlink (pre @ p # post) @ rest) ?h1)) = dirs ?h1
    \<and> users (snd (seq (map unlink (pre @ p # post) @ rest) ?h1)) = users ?h1
    \<and> groups (snd (seq (map unlink (pre @ p # post) @ rest) ?h1)) = groups ?h1"
    by (rule Cons.IH)
  show ?case unfolding step using IH by (simp add: unlink_frame)
qed

lemma seq_unlinks_ok:
  assumes "\<forall>q \<in> set ps. files h q \<noteq> None \<and> q \<notin> dirs h" "distinct ps"
  shows "\<exists>h1. seq (map unlink ps) h = (Ok, h1)
    \<and> log h1 = log h @ map Unlink ps
    \<and> (\<forall>q. q \<notin> set ps \<longrightarrow> files h1 q = files h q)
    \<and> dirs h1 = dirs h \<and> users h1 = users h \<and> groups h1 = groups h \<and> programs h1 = programs h"
  using assms
proof (induction ps arbitrary: h)
  case Nil
  show ?case by simp
next
  case (Cons a ps)
  let ?h1 = "snd (unlink a h)"
  have ok: "fst (unlink a h) = Ok" using Cons.prems by (simp add: unlink_ok)
  have step: "seq (map unlink (a # ps)) h = seq (map unlink ps) ?h1"
    using ok by (simp add: seq_Cons_ok del: seq.simps)
  have "\<forall>q \<in> set ps. files ?h1 q \<noteq> None \<and> q \<notin> dirs ?h1"
    using Cons.prems by (auto simp: unlink_frame)
  moreover have "distinct ps" using Cons.prems by simp
  ultimately obtain h2 where h2: "seq (map unlink ps) ?h1 = (Ok, h2)"
    "log h2 = log ?h1 @ map Unlink ps"
    "\<forall>q. q \<notin> set ps \<longrightarrow> files h2 q = files ?h1 q"
    "dirs h2 = dirs ?h1" "users h2 = users ?h1" "groups h2 = groups ?h1"
    "programs h2 = programs ?h1"
    using Cons.IH [of ?h1] by blast
  show ?case unfolding step using h2 by (simp add: unlink_frame)
qed

lemma installed_host_facts:
  "log installed_host = []"
  "files installed_host ''/usr/bin/ipmi_exporter'' = Some ''ELF''"
  by (simp_all add: installed_host_def)

lemma installed_host_programs:
  "''systemctl'' \<in> programs installed_host"
  "''dpkg'' \<in> programs installed_host"
  "''apt-get'' \<in> programs installed_host"
  by (simp_all add: installed_host_def)

subsection \<open>Teardown\<close>

lemma uninstall_unlinks:
  "uninstall_ipmi_exporter env =
     seq (map unlink uninstall_files
          @ [rmtree state_dir, call env [''userdel'', ''ipmi_exporter''],
             call env [''groupdel'', ''ipmi_exporter'']])"
  by (simp add: uninstall_ipmi_exporter_def uninstall_files_def state_dir_def)

lemma distinct_uninstall_files: "distinct uninstall_files"
  by (simp add: uninstall_files_def)

lemma state_dir_not_unlinked: "state_dir \<notin> set uninstall_files"
  by (simp add: uninstall_files_def state_dir_def)

lemma on_stop_systemctl:
  assumes "''systemctl'' \<in> programs h"
  shows "\<exists>h2. on_stop env h = seq [uninstall_ipmi_exporter env] h2
     \<and> files h2 = files h \<and> dirs h2 = dirs h \<and> users h2 = users h \<and> groups h2 = groups h
     \<and> programs h2 = programs h
     \<and> log h2 = log h @ [Call [''systemctl'', ''stop'', ''ipmi_exporter''],
                           Call [''systemctl'', ''disable'', ''ipmi_exporter'']]"
proof -
  let ?h1 = "snd (call env [''systemctl'', ''stop'', ''ipmi_exporter''] h)"
  let ?h2 = "snd (call env [''systemctl'', ''disable'', ''ipmi_exporter''] ?h1)"
  have 1: "fst (call env [''systemctl'', ''stop'', ''ipmi_exporter''] h) = Ok"
    using assms by (simp add: call_ok)
  have 2: "fst (call env [''systemctl'', ''disable'', ''ipmi_exporter''] ?h1) = Ok"
    using assms by (simp add: call_ok call_frame)
  have "on_stop env h = seq [uninstall_ipmi_exporter env] ?h2"
    unfolding on_stop_def using 1 2 by (simp add: seq_Cons_ok del: seq.simps)
  moreover have "files ?h2 = files h" "dirs ?h2 = dirs h" "users ?h2 = users h"
    "groups ?h2 = groups h" "programs ?h2 = programs h"
    "log ?h2 = log h @ [Call [''systemctl'', ''stop'', ''ipmi_exporter''],
                         Call [''systemctl'', ''disable'', ''ipmi_exporter'']]"
    by (simp_all add: call_frame call_systemctl)
  ultimately show ?thesis by blast
qed

lemma on_stop_missing_file:
  assumes "''systemctl'' \<in> programs h" "uninstall_files = pre @ p # post"
    "\<forall>q \<in> set pre. files h q \<noteq> None \<and> q \<notin> dirs h" "files h p = None" "p \<notin> dirs h"
  shows "fst (on_stop env h) = Raise (FileNotFoundError p)
    \<and> log (snd (on_stop env h)) =
       log h @ [Call [''systemctl'', ''stop'', ''ipmi_exporter''],
                Call [''systemctl'', ''disable'', ''ipmi_exporter'']] @ map Unlink (pre @ [p])
    \<and> (\<forall>q \<in> set post. files (snd (on_stop env h)) q = files h q)
    \<and> dirs (snd (on_stop env h)) = dirs h
    \<and> users (snd (on_stop env h)) = users h
    \<and> groups (snd (on_stop env h)) = groups h"
proof -
  obtain h2 where h2: "on_stop env h = seq [uninstall_ipmi_exporter env] h2"
    "files h2 = files h" "dirs h2 = dirs h" "users h2 = users h" "groups h2 = groups h"
    "log h2 = log h @ [Call [''systemctl'', ''stop'', ''ipmi_exporter''],
                           Call [''systemctl'', ''disable'', ''ipmi_exporter'']]"
    using on_stop_systemctl [OF assms(1), of env] by blast
  have d: "distinct (pre @ p # post)" using distinct_uninstall_files assms(2) by simp
  then have d1: "distinct (pre @ [p])" by simp
  have post: "\<forall>q \<in> set post. q \<notin> set pre" using d by auto
  have run: "on_stop env h =
      seq (map unlink (pre @ p # post)
           @ [rmtree state_dir, call env [''userdel'', ''ipmi_exporter''],
              call env [''groupdel'', ''ipmi_exporter'']]) h2"
    using h2(1) by (simp add: seq_single uninstall_unlinks assms(2) del: seq.simps)
  have pre: "\<forall>q \<in> set pre. files h2 q \<noteq> None \<and> q \<notin> dirs h2"
    using assms(3) h2 by simp
  have p: "files h2 p = None" "p \<notin> dirs h2" using assms h2 by simp_all
  show ?thesis
    unfolding run
    using seq_unlinks_raise [OF pre d1 p, of post] post h2(2-) by simp
qed

lemma on_stop_missing_state_dir:
  assumes "''systemctl'' \<in> programs h"
    "\<forall>q \<in> set uninstall_files. files h q \<noteq> None \<and> q \<notin> dirs h"
    "files h state_dir = None" "state_dir \<notin> dirs h"
  shows "fst (on_stop env h) = Raise (FileNotFoundError state_dir)
    \<and> log (snd (on_stop env h)) =
       log h @ [Call [''systemctl'', ''stop'', ''ipmi_exporter''],
                Call [''systemctl'', ''disable'', ''ipmi_exporter'']] @ map Unlink uninstall_files
             @ [RmTree state_dir]
    \<and> users (snd (on_stop env h)) = users h
    \<and> groups (snd (on_stop env h)) = groups h"
proof -
  obtain h2 where h2: "on_stop env h = seq [uninstall_ipmi_exporter env] h2"
    "files h2 = files h" "dirs h2 = dirs h" "users h2 = users h" "groups h2 = groups h"
    "log h2 = log h @ [Call [''systemctl'', ''stop'', ''ipmi_exporter''],
                           Call [''systemctl'', ''disable'', ''ipmi_exporter'']]"
    using on_stop_systemctl [OF assms(1), of env] by blast
  have pre: "\<forall>q \<in> set uninstall_files. files h2 q \<noteq> None \<and> q \<notin> dirs h2"
    using assms(2) h2 by simp
  obtain h3 where h3: "seq (map unlink uninstall_files) h2 = (Ok, h3)"
    "log h3 = log h2 @ map Unlink uninstall_files"
    "\<forall>q. q \<notin> set uninstall_files \<longrightarrow> files h3 q = files h2 q"
    "dirs h3 = dirs h2" "users h3 = users h2" "groups h3 = groups h2"
    using seq_unlinks_ok [OF pre distinct_uninstall_files] by blast
  have s: "files h3 state_dir = None" "state_dir \<notin> dirs h3"
    using h3 h2 assms state_dir_not_unlinked by simp_all
  have r: "fst (rmtree state_dir h3) = Raise (FileNotFoundError state_dir)"
    using s by (rule rmtree_raise)
  have "on_stop env h = (Raise (FileNotFoundError state_dir), snd (rmtree state_dir h3))"
    using h2(1) r
    by (simp add: seq_single uninstall_unlinks seq_append_Ok [OF h3(1)] seq_Cons_raise
        del: seq.simps)
  then show ?thesis using h3 h2 by (simp add: rmtree_frame)
qed

lemma on_stop_ok:
  "fst (on_stop env h) = Ok \<longleftrightarrow>
     {''systemctl'', ''userdel'', ''groupdel''} \<subseteq> programs h
     \<and> (\<forall>p \<in> set uninstall_files. files h p \<noteq> None \<and> p \<notin> dirs h)
     \<and> state_dir \<in> dirs h"
  by (auto simp add: on_stop_def uninstall_ipmi_exporter_def uninstall_files_def state_dir_def
      seq_ok_iff call_ok call_frame unlink_ok unlink_frame rmtree_ok rmtree_frame
      simp del: seq.simps(2))

text \<open>
  C1, as the code has it. \<open>_on_stop\<close> succeeds exactly when \<open>systemctl\<close>, \<open>userdel\<close> and
  \<open>groupdel\<close> can be executed, the binary, the unit file, the sysconfig file and the
  configuration file exist as regular files, and the state directory exists. The exit
  statuses of the three tools are dropped, so an absent unit, user or group is
  tolerated; an absent file is not. With \<open>systemctl\<close> at hand, the first of the four
  files that is absent makes its \<open>unlink\<close> raise \<open>FileNotFoundError\<close>: the log ends with
  that \<open>unlink\<close>, the files after it, the directories, the users and the groups are as
  before. With the four files there and the state directory absent, \<open>rmtree\<close> raises
  \<open>FileNotFoundError\<close>: the log ends with it, and the users and groups are as before.
\<close>

theorem on_stop_succeeds_iff:
  "(fst (on_stop env h) = Ok \<longleftrightarrow>
      {''systemctl'', ''userdel'', ''groupdel''} \<subseteq> programs h
      \<and> (\<forall>q \<in> set uninstall_files. files h q \<noteq> None \<and> q \<notin> dirs h)
      \<and> state_dir \<in> dirs h)
   \<and> (''systemctl'' \<in> programs h \<and> uninstall_files = pre @ p # post
        \<and> (\<forall>q \<in> set pre. files h q \<noteq> None \<and> q \<notin> dirs h)
        \<and> files h p = None \<and> p \<notin> dirs h \<longrightarrow>
      fst (on_stop env h) = Raise (FileNotFoundError p)
      \<and> log (snd (on_stop env h)) =
          log h @ [Call [''systemctl'', ''stop'', ''ipmi_exporter''],
                   Call [''systemctl'', ''disable'', ''ipmi_exporter'']] @ map Unlink (pre @ [p])
      \<and> (\<forall>q \<in> set post. files (snd (on_stop env h)) q = files h q)
      \<and> dirs (snd (on_stop env h)) = dirs h
      \<and> users (snd (on_stop env h)) = users h
      \<and> groups (snd (on_stop env h)) = groups h)
   \<and> (''systemctl'' \<in> programs h
        \<and> (\<forall>q \<in> set uninstall_files. files h q \<noteq> None \<and> q \<notin> dirs h)
        \<and> files h state_dir = None \<and> state_dir \<notin> dirs h \<longrightarrow>
      fst (on_stop env h) = Raise (FileNotFoundError state_dir)
      \<and> log (snd (on_stop env h)) =
          log h @ [Call [''systemctl'', ''stop'', ''ipmi_exporter''],
                   Call [''systemctl'', ''disable'', ''ipmi_exporter'']]
                @ map Unlink uninstall_files @ [RmTree state_dir]
      \<and> users (snd (on_stop env h)) = users h
      \<and> groups (snd (on_stop env h)) = groups h)"
proof (intro conjI impI)
  show "fst (on_stop env h) = Ok \<longleftrightarrow>
      {''systemctl'', ''userdel'', ''groupdel''} \<subseteq> programs h
      \<and> (\<forall>q \<in> set uninstall_files. files h q \<noteq> None \<and> q \<notin> dirs h)
      \<and> state_dir \<in> dirs h"
    by (rule on_stop_ok)
next
  assume a: "''systemctl'' \<in> programs h \<and> uninstall_files = pre @ p # post
        \<and> (\<forall>q \<in> set pre. files h q \<noteq> None \<and> q \<notin> dirs h)
        \<and> files h p = None \<and> p \<notin> dirs h"
  then have b: "''systemctl'' \<in> programs h" "uninstall_files = pre @ p # post"
    "\<forall>q \<in> set pre. files h q \<noteq> None \<and> q \<notin> dirs h" "files h p = None" "p \<notin> dirs h"
    by simp_all
  note c = on_stop_missing_file [OF b, of env]
  show "fst (on_stop env h) = Raise (FileNotFoundError p)"
    "log (snd (on_stop env h)) =
          log h @ [Call [''systemctl'', ''stop'', ''ipmi_exporter''],
                   Call [''systemctl'', ''disable'', ''ipmi_exporter'']] @ map Unlink (pre @ [p])"
    "\<forall>q \<in> set post. files (snd (on_stop env h)) q = files h q"
    "dirs (snd (on_stop env h)) = dirs h"
    "users (snd (on_stop env h)) = users h"
    "groups (snd (on_stop env h)) = groups h"
    using c by blast+
next
  assume a: "''systemctl'' \<in> programs h
        \<and> (\<forall>q \<in> set uninstall_files. files h q \<noteq> None \<and> q \<notin> dirs h)
        \<and> files h state_dir = None \<and> state_dir \<notin> dirs h"
  then have b: "''systemctl'' \<in> programs h"
    "\<forall>q \<in> set uninstall_files. files h q \<noteq> None \<and> q \<notin> dirs h"
    "files h state_dir = None" "state_dir \<notin> dirs h"
    by simp_all
  note c = on_stop_missing_state_dir [OF b, of env]
  show "fst (on_stop env h) = Raise (FileNotFoundError state_dir)"
    "log (snd (on_stop env h)) =
          log h @ [Call [''systemctl'', ''stop'', ''ipmi_exporter''],
                   Call [''systemctl'', ''disable'', ''ipmi_exporter'']]
                @ map Unlink uninstall_files @ [RmTree state_dir]"
    "users (snd (on_stop env h)) = users h"
    "groups (snd (on_stop env h)) = groups h"
    using c by blast+
qed

text \<open>Teardown of the installed host succeeds, also when the user and the group are
  gone already; with the sysconfig file removed it stops at the third \<open>unlink\<close>.\<close>

theorem on_stop_succeeds_iff_witness:
  "fst (on_stop sample_env installed_host) = Ok
   \<and> fst (on_stop sample_env (installed_host\<lparr>users := {''root''}, groups := {''root''}\<rparr>)) = Ok
   \<and> log (snd (on_stop sample_env host_without_sysconfig)) =
       [Call [''systemctl'', ''stop'', ''ipmi_exporter''],
        Call [''systemctl'', ''disable'', ''ipmi_exporter''],
        Unlink ''/usr/bin/ipmi_exporter'', Unlink ''/etc/systemd/system/ipmi_exporter.service'',
        Unlink ''/etc/sysconfig/ipmi_exporter'']"
  using on_stop_succeeds_iff [of sample_env installed_host, THEN conjunct1]
    on_stop_succeeds_iff [of sample_env
      "installed_host\<lparr>users := {''root''}, groups := {''root''}\<rparr>", THEN conjunct1]
    on_stop_succeeds_iff [of sample_env host_without_sysconfig
      "[''/usr/bin/ipmi_exporter'', ''/etc/systemd/system/ipmi_exporter.service'']"
      "''/etc/sysconfig/ipmi_exporter''" "[''/etc/ipmi_exporter/ipmi_exporter.yaml'']",
      THEN conjunct2, THEN conjunct1]
  by (simp add: installed_host_def host_without_sysconfig_def uninstall_files_def state_dir_def)

text \<open>C1 as stated fails: with the sysconfig file absent the teardown raises at the third
  \<open>unlink\<close>; the binary and the unit file are gone by then, the configuration file and
  the service account are still there.\<close>

theorem on_stop_absent_file_raises:
  "fst (on_stop sample_env host_without_sysconfig) =
     Raise (FileNotFoundError ''/etc/sysconfig/ipmi_exporter'')
   \<and> files (snd (on_stop sample_env host_without_sysconfig)) ''/usr/bin/ipmi_exporter'' = None
   \<and> files (snd (on_stop sample_env host_without_sysconfig))
        ''/etc/ipmi_exporter/ipmi_exporter.yaml'' = Some ''modules: {}''
   \<and> ''ipmi_exporter'' \<in> users (snd (on_stop sample_env host_without_sysconfig))"
  by (simp add: on_stop_def uninstall_ipmi_exporter_def host_without_sysconfig_def
      installed_host_def sample_env_def call_def unlink_def record_event_def tool_effect_def
      Let_def)

subsection \<open>The privilege grant\<close>

lemma sudoers_grants_rule: "sudoers_grants sudoers_rule = map helper_grant allow_list"
  by code_simp

text \<open>The reader sees a blanket grant wherever it stands: before the tag of the same
  rule, or in a rule of its own on another line.\<close>

lemma sudoers_grants_wide:
  "sudoers_grants ''ipmi_exporter ALL = ALL, NOPASSWD: /usr/sbin/ipmi-sel'' =
     [\<lparr>grantee = ''ipmi_exporter'', on_host = ''ALL'', run_as = [], passwordless = False,
       command = ''ALL''\<rparr>, helper_grant ''/usr/sbin/ipmi-sel'']"
  "sudoers_grants (''ipmi_exporter ALL = (ALL) ALL'' @ [CHR 0x0A]
                   @ ''ipmi_exporter ALL = NOPASSWD: /usr/sbin/ipmi-sel'' @ [CHR 0x0A]) =
     [\<lparr>grantee = ''ipmi_exporter'', on_host = ''ALL'', run_as = ''ALL'', passwordless = False,
       command = ''ALL''\<rparr>, helper_grant ''/usr/sbin/ipmi-sel'']"
  by code_simp+

lemma dirname_sudoers: "dirname sudoers = ''/etc/sudoers.d''"
  by (simp add: dirname_def sudoers_def)

lemma installed_host_sudoers:
  "sudoers \<notin> dirs installed_host"
  "''/etc/sudoers.d'' \<in> dirs installed_host"
  "files installed_host sudoers = Some sudoers_rule"
  "log installed_host = []"
  by (simp_all add: installed_host_def sudoers_def)

lemma fresh_host_sudoers:
  "sudoers \<notin> dirs fresh_host"
  "''/etc/sudoers.d'' \<in> dirs fresh_host"
  "log fresh_host = []"
  by (simp_all add: fresh_host_def sudoers_def)

lemma create_sudoers_result:
  "create_sudoers_file_for_ipmi_exporter h =
     (if sudoers \<in> dirs h
        then (Raise (IsADirectoryError sudoers), record_event (OpenW sudoers) h)
      else if ''/etc/sudoers.d'' \<notin> dirs h
        then (Raise (FileNotFoundError sudoers), record_event (OpenW sudoers) h)
      else (Ok, h\<lparr>files := (files h)(sudoers \<mapsto> sudoers_rule),
                  log := log h @ [OpenW sudoers, Write sudoers sudoers_rule]\<rparr>))"
  by (simp add: create_sudoers_file_for_ipmi_exporter_def sudoers_statements_def open_w_def
      f_write_def put_file_def record_event_def dirname_sudoers Let_def)

text \<open>
  C6. Whenever \<open>_create_sudoers_file_for_ipmi_exporter\<close> returns, no other file has
  changed, and the grants of the whole grant file are exactly seven: the account
  \<open>ipmi_exporter\<close> may run, without a password, each of the seven helper binaries under
  \<open>/usr/sbin\<close>. Every grant of the file is for that account and for one of the seven
  commands, and no grant has the command \<open>ALL\<close> (the rule's \<open>ALL\<close> is its host field).
\<close>

theorem sudoers_allow_list:
  "create_sudoers_file_for_ipmi_exporter h = (Ok, h') \<Longrightarrow>
     \<exists>content. files h' sudoers = Some content
       \<and> sudoers_grants content = map helper_grant allow_list
       \<and> (\<forall>g \<in> set (sudoers_grants content).
             grantee g = ''ipmi_exporter'' \<and> command g \<in> set allow_list \<and> command g \<noteq> ''ALL'')
       \<and> (\<forall>p. p \<noteq> sudoers \<longrightarrow> files h' p = files h p)"
proof -
  assume "create_sudoers_file_for_ipmi_exporter h = (Ok, h')"
  then have "files h' sudoers = Some sudoers_rule" "\<forall>p. p \<noteq> sudoers \<longrightarrow> files h' p = files h p"
    by (auto simp: create_sudoers_result split: if_splits)
  moreover have "\<forall>g \<in> set (map helper_grant allow_list).
      grantee g = ''ipmi_exporter'' \<and> command g \<in> set allow_list \<and> command g \<noteq> ''ALL''"
    by (simp add: helper_grant_def allow_list_def)
  ultimately show ?thesis
    using sudoers_grants_rule by (intro exI [of _ sudoers_rule]) simp
qed

theorem sudoers_allow_list_witness:
  "fst (create_sudoers_file_for_ipmi_exporter fresh_host) = Ok
   \<and> (\<exists>content. files (snd (create_sudoers_file_for_ipmi_exporter fresh_host)) sudoers
                   = Some content
         \<and> map command (sudoers_grants content) = allow_list)"
proof -
  have ok: "create_sudoers_file_for_ipmi_exporter fresh_host =
      (Ok, snd (create_sudoers_file_for_ipmi_exporter fresh_host))"
    by (simp add: create_sudoers_result fresh_host_sudoers)
  have "map command (map helper_grant allow_list) = allow_list"
    by (simp add: helper_grant_def allow_list_def)
  with sudoers_allow_list [OF ok] ok show ?thesis
    by (metis fst_conv)
qed

lemma sudoers_states:
  "sudoers \<notin> dirs h \<Longrightarrow> ''/etc/sudoers.d'' \<in> dirs h \<Longrightarrow>
     map (\<lambda>s. files s sudoers) (observable sudoers_statements h) = [Some [], Some sudoers_rule]"
  by (simp add: sudoers_statements_def open_w_def f_write_def put_file_def record_event_def
      dirname_sudoers Let_def)

lemma sudoers_log:
  "sudoers \<notin> dirs h \<Longrightarrow> ''/etc/sudoers.d'' \<in> dirs h \<Longrightarrow>
     log (snd (create_sudoers_file_for_ipmi_exporter h)) =
       log h @ [OpenW sudoers, Write sudoers sudoers_rule]"
  by (simp add: create_sudoers_result)

lemma sudoers_rule_not_empty: "sudoers_rule \<noteq> []"
  by (simp add: sudoers_rule_def)

text \<open>
  C7, as the code has it. The grant file is written in place: the final path is opened
  for writing, which creates it or truncates it, and then the rule is written. Between
  the two the file exists and is empty. Both operations name the final path; nothing is
  renamed.
\<close>

theorem sudoers_written_in_place:
  "sudoers \<notin> dirs h \<Longrightarrow> ''/etc/sudoers.d'' \<in> dirs h \<Longrightarrow>
     map (\<lambda>s. files s sudoers) (observable sudoers_statements h) = [Some [], Some sudoers_rule]
     \<and> log (snd (create_sudoers_file_for_ipmi_exporter h)) =
         log h @ [OpenW sudoers, Write sudoers sudoers_rule]"
  by (simp add: sudoers_states sudoers_log)

theorem sudoers_written_in_place_witness:
  "map (\<lambda>s. files s sudoers) (observable sudoers_statements fresh_host) =
     [Some [], Some sudoers_rule]
   \<and> log (snd (create_sudoers_file_for_ipmi_exporter fresh_host)) =
       [OpenW sudoers, Write sudoers sudoers_rule]"
  using sudoers_written_in_place [OF fresh_host_sudoers(1) fresh_host_sudoers(2)]
  by (simp add: fresh_host_sudoers(3))

text \<open>C7 as stated fails: on the installed host, whose grant file holds the whole rule,
  a reader between the two operations finds the file empty; and the operations are an
  open and a write of the final path, with no rename.\<close>

theorem sudoers_write_not_atomic:
  "map (\<lambda>s. files s sudoers) (observable sudoers_statements installed_host) =
     [Some [], Some sudoers_rule]
   \<and> files installed_host sudoers = Some sudoers_rule
   \<and> sudoers_rule \<noteq> []
   \<and> log (snd (create_sudoers_file_for_ipmi_exporter installed_host)) =
       [OpenW sudoers, Write sudoers sudoers_rule]"
  using sudoers_states [OF installed_host_sudoers(1) installed_host_sudoers(2)]
    sudoers_log [OF installed_host_sudoers(1) installed_host_sudoers(2)]
  by (simp add: installed_host_sudoers(3) installed_host_sudoers(4) sudoers_rule_not_empty)

subsection \<open>Exit statuses of the supervisor\<close>

lemma call_exit_status:
  assumes "\<forall>argv h. take 1 argv \<noteq> [''systemctl''] \<longrightarrow> rc argv h = rc' argv h"
  shows "call (env\<lparr>exit_status := rc\<rparr>) argv = call (env\<lparr>exit_status := rc'\<rparr>) argv"
proof
  fix h
  show "call (env\<lparr>exit_status := rc\<rparr>) argv h = call (env\<lparr>exit_status := rc'\<rparr>) argv h"
  proof (cases "take 1 argv = [''systemctl'']")
    case True
    then show ?thesis
      by (cases argv) (simp_all add: call_def tool_effect_def)
  next
    case False
    with assms have "rc argv h = rc' argv h" by blast
    then show ?thesis by (simp add: call_def split: list.splits)
  qed
qed

lemma render_sysconfig_exit_status:
  "render_sysconfig (env\<lparr>exit_status := rc\<rparr>) context = render_sysconfig env context"
  by (simp add: render_sysconfig_def template_dir_def Let_def cong: option.case_cong)

lemma on_start_result:
  "on_start env h =
     (if ''systemctl'' \<in> programs h
      then (Ok, (record_event (Call [''systemctl'', ''start'', ''ipmi_exporter'']) h)
                  \<lparr>status := Some (ActiveStatus ''ipmi-exporter started'')\<rparr>)
      else (Raise (FileNotFoundError ''systemctl''),
            record_event (Call [''systemctl'', ''start'', ''ipmi_exporter'']) h))"
  by (simp add: on_start_def call_def set_status_def tool_effect_def)

text \<open>
  C9, as the code has it. The exit status of every \<open>systemctl\<close> command is dropped:
  two worlds that differ only in the exit statuses of \<open>systemctl\<close> commands give
  \<open>_on_start\<close>, \<open>_on_stop\<close> and \<open>_on_config_changed\<close> the same outcome and the same
  host. \<open>_on_start\<close> returns normally exactly when \<open>systemctl\<close> can be executed, and
  then, whatever the exit status, the unit's status is "ipmi-exporter started".
\<close>

theorem supervisor_exit_status_dropped:
  assumes "\<forall>argv h. take 1 argv \<noteq> [''systemctl''] \<longrightarrow> rc argv h = rc' argv h"
  shows "on_start (env\<lparr>exit_status := rc\<rparr>) h = on_start (env\<lparr>exit_status := rc'\<rparr>) h
    \<and> on_stop (env\<lparr>exit_status := rc\<rparr>) h = on_stop (env\<lparr>exit_status := rc'\<rparr>) h
    \<and> on_config_changed (env\<lparr>exit_status := rc\<rparr>) h =
        on_config_changed (env\<lparr>exit_status := rc'\<rparr>) h
    \<and> (fst (on_start (env\<lparr>exit_status := rc\<rparr>) h) = Ok \<longleftrightarrow> ''systemctl'' \<in> programs h)
    \<and> (''systemctl'' \<in> programs h \<longrightarrow>
         status (snd (on_start (env\<lparr>exit_status := rc\<rparr>) h)) =
           Some (ActiveStatus ''ipmi-exporter started''))"
proof (intro conjI)
  show "on_start (env\<lparr>exit_status := rc\<rparr>) h = on_start (env\<lparr>exit_status := rc'\<rparr>) h"
    by (simp add: on_start_def call_exit_status [OF assms])
  show "on_stop (env\<lparr>exit_status := rc\<rparr>) h = on_stop (env\<lparr>exit_status := rc'\<rparr>) h"
    by (simp add: on_stop_def uninstall_ipmi_exporter_def call_exit_status [OF assms])
  show "on_config_changed (env\<lparr>exit_status := rc\<rparr>) h =
        on_config_changed (env\<lparr>exit_status := rc'\<rparr>) h"
    by (simp add: on_config_changed_def call_exit_status [OF assms]
        render_sysconfig_exit_status)
  show "fst (on_start (env\<lparr>exit_status := rc\<rparr>) h) = Ok \<longleftrightarrow> ''systemctl'' \<in> programs h"
    by (simp add: on_start_result)
  show "''systemctl'' \<in> programs h \<longrightarrow>
         status (snd (on_start (env\<lparr>exit_status := rc\<rparr>) h)) =
           Some (ActiveStatus ''ipmi-exporter started'')"
    by (simp add: on_start_result)
qed

text \<open>Teardown of the installed host with every \<open>systemctl\<close> command exiting with status 3
  is teardown with every command exiting with status 0; the start with status 3 returns
  normally and sets the status.\<close>

theorem supervisor_exit_status_dropped_witness:
  "on_stop (sample_env\<lparr>exit_status :=
              (\<lambda>argv h. if take 1 argv = [''systemctl''] then 3 else 0)\<rparr>) installed_host =
     on_stop (sample_env\<lparr>exit_status := (\<lambda>argv h. 0)\<rparr>) installed_host
   \<and> fst (on_start (sample_env\<lparr>exit_status :=
                 (\<lambda>argv h. if take 1 argv = [''systemctl''] then 3 else 0)\<rparr>) installed_host) = Ok
   \<and> status (snd (on_start (sample_env\<lparr>exit_status :=
                 (\<lambda>argv h. if take 1 argv = [''systemctl''] then 3 else 0)\<rparr>) installed_host)) =
       Some (ActiveStatus ''ipmi-exporter started'')"
proof -
  have other_commands:
    "\<forall>argv (h :: host). take 1 argv \<noteq> [''systemctl''] \<longrightarrow>
       (if take 1 argv = [''systemctl''] then 3 else 0) = (0 :: int)"
    by simp
  show ?thesis
    using supervisor_exit_status_dropped
      [of "\<lambda>argv h. if take 1 argv = [''systemctl''] then 3 else 0" "\<lambda>argv h. 0"
          sample_env installed_host, OF other_commands]
      installed_host_programs(1)
    by blast
qed

text \<open>C9 as stated fails: \<open>systemctl start\<close> exits with status 1, and \<open>_on_start\<close> returns
  normally with the status "started", exactly as when the command succeeds.\<close>

theorem on_start_swallows_failure:
  "exit_status failing_env [''systemctl'', ''start'', ''ipmi_exporter''] installed_host = 1
   \<and> fst (on_start failing_env installed_host) = Ok
   \<and> status (snd (on_start failing_env installed_host)) =
       Some (ActiveStatus ''ipmi-exporter started'')
   \<and> on_start failing_env installed_host = on_start sample_env installed_host"
  by (simp add: failing_env_def on_start_result installed_host_programs)

subsection \<open>The dependency package\<close>

lemma install_freeipmi_log:
  "''dpkg'' \<in> programs h \<Longrightarrow>
   log (snd (install_freeipmi env h)) =
     log h @ Call [''dpkg'', ''-l'', ''freeipmi'']
       # (if str_in ''no packages found'' (lower (stdout env [''dpkg'', ''-l'', ''freeipmi''] h))
          then [] else [Call [''apt-get'', ''install'', ''-y'', ''freeipmi'']])"
  by (simp add: install_freeipmi_def Let_def call_def record_event_def tool_effect_frame)

text \<open>
  C2 fails on the code. The test of \<open>_install_freeipmi\<close> is the wrong way round: the
  installer runs when the query's output does not say "no packages found". With the
  package installed (the query lists it) the installer is run; where the output says
  that no package was found, the installer is skipped.
\<close>

theorem install_freeipmi_inverted:
  "stdout sample_env [''dpkg'', ''-l'', ''freeipmi''] installed_host =
     ''ii  freeipmi  1.6.9-2  amd64  GNU implementation of IPMI''
   \<and> log (snd (install_freeipmi sample_env installed_host)) =
       [Call [''dpkg'', ''-l'', ''freeipmi''], Call [''apt-get'', ''install'', ''-y'', ''freeipmi'']]
   \<and> stdout absent_env [''dpkg'', ''-l'', ''freeipmi''] installed_host =
       ''dpkg-query: no packages found matching freeipmi''
   \<and> log (snd (install_freeipmi absent_env installed_host)) =
       [Call [''dpkg'', ''-l'', ''freeipmi'']]"
  by (simp add: install_freeipmi_log installed_host_programs installed_host_facts sample_env_def
      absent_env_def lower_def lower_char_def)

subsection \<open>The reported version\<close>

lemma set_charm_version_result:
  "files h ''/usr/bin/ipmi_exporter'' \<noteq> None \<Longrightarrow>
   set_charm_version env h =
     (case re_search version_pattern (stdout env [''/usr/bin/ipmi_exporter'', ''--version''] h) of
        None \<Rightarrow>
          (Raise AttributeError,
           record_event (Call [''/usr/bin/ipmi_exporter'', ''--version'']) h)
      | Some version \<Rightarrow>
          (Ok, (record_event (Call [''/usr/bin/ipmi_exporter'', ''--version'']) h)
                 \<lparr>workload_version := Some version\<rparr>))"
  by (auto simp: set_charm_version_def Let_def)

text \<open>The search on four outputs: the release's own; digits alone; a date before the
  version; no digits.\<close>

lemma re_search_examples:
  "re_search version_pattern
     ''ipmi_exporter, version 1.9.1 (branch: HEAD, revision: 1a2b3c)'' = Some ''1.9.1''"
  "re_search version_pattern ''ipmi_exporter build 20240115'' = Some ''20240115''"
  "re_search version_pattern ''built 2024-01-02, version 1.9.1'' = Some ''2024-01-02''"
  "re_search version_pattern ''ipmi_exporter (no version)'' = None"
  by (simp_all add: version_pattern_def is_digit_def)

text \<open>
  C3 fails on the code. The dots of the pattern are not escaped, so they match any
  character: an output without any dot, and so without a dotted triple, still matches,
  and \<open>_set_charm_version\<close> reports the digits it found instead of failing.
\<close>

theorem set_charm_version_takes_digits:
  "CHR ''.'' \<notin> set (stdout odd_version_env [''/usr/bin/ipmi_exporter'', ''--version'']
                       installed_host)
   \<and> fst (set_charm_version odd_version_env installed_host) = Ok
   \<and> workload_version (snd (set_charm_version odd_version_env installed_host)) =
       Some ''20240115''"
  by (simp add: set_charm_version_result installed_host_facts odd_version_env_def
      re_search_examples del: re_search.simps)

subsection \<open>The sysconfig file\<close>

lemma installed_host_sysconfig:
  "files installed_host sysconfig_target = Some ''ARGS=--web.listen-address=127.0.0.1:9999''"
  by (simp add: installed_host_def sysconfig_target_def)

text \<open>
  C8. Whenever \<open>_render_sysconfig\<close> returns, the sysconfig file holds exactly the text
  that the renderer gives for the template and the variable bag: whatever the file held
  before is gone, since the old file is unlinked and the new one is opened for writing
  (truncated) before the one write. What the rendered text contains is the template's
  business; the template is not part of the source.
\<close>

theorem render_sysconfig_replaces:
  assumes "render_sysconfig env context h = (Ok, h')"
  shows "\<exists>template text.
           files h (template_dir env @ ''/ipmi_exporter.tmpl'') = Some template
           \<and> jinja env template context = Inr text
           \<and> files h' sysconfig_target = Some text"
proof -
  let ?prepare = "[run_if (\<lambda>h. \<not> path_exists ''/etc/sysconfig'' h) (mkdir ''/etc/sysconfig''),
      run_if (\<lambda>h. \<not> path_exists ''/var/lib/ipmi_exporter/textfile_collector'' h)
        (mkdir_parents ''/var/lib/ipmi_exporter/textfile_collector''),
      chown ''/var/lib/ipmi_exporter'' ''ipmi_exporter'' ''ipmi_exporter'',
      chown ''/var/lib/ipmi_exporter/textfile_collector'' ''ipmi_exporter'' ''ipmi_exporter'']"
  let ?render = "\<lambda>h. case files h (template_dir env @ ''/ipmi_exporter.tmpl'') of
                None \<Rightarrow> (Raise (TemplateNotFound ''ipmi_exporter.tmpl''), h)
              | Some template \<Rightarrow>
                  seq [run_if (path_exists sysconfig_target) (unlink sysconfig_target),
                       (\<lambda>h. case jinja env template context of
                               Inl e \<Rightarrow> (Raise e, h)
                             | Inr text \<Rightarrow> write_text sysconfig_target text h)] h"
  have "render_sysconfig env context = seq (?prepare @ [?render])"
    by (simp add: render_sysconfig_def Let_def sysconfig_target_def del: seq.simps
        cong: option.case_cong sum.case_cong)
  with assms have "seq (?prepare @ [?render]) h = (Ok, h')"
    by simp
  then obtain h4 where prepare: "seq ?prepare h = (Ok, h4)" and rest: "?render h4 = (Ok, h')"
    using seq_snoc_Ok [of ?prepare ?render h h'] by blast
  have "files (snd (seq ?prepare h)) = files h"
    by (rule seq_files) (auto simp: run_if_files mkdir_files mkdir_parents_files chown_files)
  with prepare have h4: "files h4 = files h" by simp
  from rest obtain template where
    template: "files h4 (template_dir env @ ''/ipmi_exporter.tmpl'') = Some template"
    and unlink_write: "seq [run_if (path_exists sysconfig_target) (unlink sysconfig_target),
                       (\<lambda>h. case jinja env template context of
                               Inl e \<Rightarrow> (Raise e, h)
                             | Inr text \<Rightarrow> write_text sysconfig_target text h)] h4 = (Ok, h')"
    by (auto split: option.splits)
  from unlink_write obtain h5 where
    "(case jinja env template context of
        Inl e \<Rightarrow> (Raise e, h5)
      | Inr text \<Rightarrow> write_text sysconfig_target text h5) = (Ok, h')"
    using seq_snoc_Ok [of "[run_if (path_exists sysconfig_target) (unlink sysconfig_target)]"
        "\<lambda>h. case jinja env template context of
               Inl e \<Rightarrow> (Raise e, h)
             | Inr text \<Rightarrow> write_text sysconfig_target text h" h4 h']
    by (auto simp del: seq.simps)
  then obtain rendered where
    rendered_text: "jinja env template context = Inr rendered"
    and "write_text sysconfig_target rendered h5 = (Ok, h')"
    by (cases "jinja env template context") auto
  then have "files h' sysconfig_target = Some rendered"
    by (simp add: write_text_Ok)
  with template rendered_text h4 show ?thesis by auto
qed

text \<open>On the installed host, whose sysconfig file holds the address 127.0.0.1:9999,
  rendering with the address 0.0.0.0:9290 leaves a file with the new address alone.\<close>

theorem render_sysconfig_replaces_witness:
  "fst (render_sysconfig sample_env [''listen_address'' \<mapsto> Some ''0.0.0.0:9290''] installed_host) = Ok
   \<and> files installed_host sysconfig_target = Some ''ARGS=--web.listen-address=127.0.0.1:9999''
   \<and> files (snd (render_sysconfig sample_env [''listen_address'' \<mapsto> Some ''0.0.0.0:9290''] installed_host))
        sysconfig_target = Some ''ARGS=--web.listen-address=0.0.0.0:9290''"
proof -
  let ?run = "render_sysconfig sample_env [''listen_address'' \<mapsto> Some ''0.0.0.0:9290''] installed_host"
  have ok: "fst ?run = Ok"
    by (simp add: render_sysconfig_def Let_def installed_host_def sample_env_def template_dir_def
        run_if_def path_exists_def chown_def unlink_def write_text_def open_w_def f_write_def
        put_file_def record_event_def dirname_def)
  then have run: "?run = (Ok, snd ?run)"
    by (metis prod.collapse)
  have template: "files installed_host (template_dir sample_env @ ''/ipmi_exporter.tmpl'') =
      Some ''ARGS=--web.listen-address=''"
    by (simp add: installed_host_def sample_env_def template_dir_def)
  have rendered: "jinja sample_env ''ARGS=--web.listen-address=''
      [''listen_address'' \<mapsto> Some ''0.0.0.0:9290''] = Inr ''ARGS=--web.listen-address=0.0.0.0:9290''"
    by (simp add: sample_env_def)
  from render_sysconfig_replaces [OF run] template rendered
  have "files (snd ?run) sysconfig_target = Some ''ARGS=--web.listen-address=0.0.0.0:9290''"
    by auto
  with ok show ?thesis by (simp add: installed_host_sysconfig)
qed

subsection \<open>Download and extraction\<close>

lemma under_extracted: "under d (d @ ''/'' @ name)"
  by (simp add: under_def)

lemma urlretrieve_archive:
  assumes "urlretrieve env url archive h = (r, h')" "clean d h" "\<not> under d archive"
  shows "clean d h'" "r = Ok \<longrightarrow> files h' archive \<noteq> None"
    "r \<noteq> Raise ReadError" "r \<noteq> Raise ExtractError"
  using assms
  by (auto simp: urlretrieve_def put_file_def record_event_def Let_def clean_def path_exists_def
      split: download.splits if_splits)

lemma tarfile_open_archive:
  assumes "tarfile_open env archive h = (r, h')"
  shows "files h' = files h" "dirs h' = dirs h"
    "r = Ok \<or> r = Raise ReadError \<longrightarrow> files h archive \<noteq> None" "r \<noteq> Raise ExtractError"
  using assms
  by (auto simp: tarfile_open_def record_event_def Let_def split: option.splits tar.splits)

lemma fold_extract_member_files:
  "\<not> under d q \<Longrightarrow> files (fold (extract_member d) ms h) q = files h q"
proof (induction ms arbitrary: h)
  case Nil
  show ?case by simp
next
  case (Cons m ms)
  have "d @ ''/'' @ fst m \<noteq> q"
    using Cons.prems under_extracted [of d "fst m"] by auto
  with Cons show ?case by (simp add: extract_member_def Let_def)
qed

lemma extractall_files:
  "\<not> under d q \<Longrightarrow> files (snd (extractall env p d h)) q = files h q"
  by (simp add: extractall_def Let_def record_event_def fold_extract_member_files
      split: option.splits tar.splits)

lemma copy2_files:
  "q \<noteq> dst \<Longrightarrow> q \<noteq> dst @ ''/'' @ basename src \<Longrightarrow> files (snd (copy2 src dst h)) q = files h q"
  by (auto simp: copy2_def copyfile_def put_file_def record_event_def Let_def split: option.splits)

lemma remove_tree_clean: "clean d (remove_tree d h)"
  by (simp add: clean_def remove_tree_def path_exists_def)

lemma remove_tree_files: "\<not> under d q \<Longrightarrow> files (remove_tree d h) q = files h q"
  by (simp add: remove_tree_def)

lemma copy2_archive:
  "files (snd (copy2 src ''/usr/bin/ipmi_exporter'' h)) archive = files h archive"
  by (rule copy2_files) (simp_all add: archive_def)

lemma TemporaryDirectory_archive:
  assumes run: "TemporaryDirectory env (\<lambda>tmp_dir.
            seq [extractall env archive tmp_dir,
                 copy2 (tmp_dir @ member) ''/usr/bin/ipmi_exporter'']) h = (r, h')"
    and "clean (mkdtemp env) h" and out: "\<not> under (mkdtemp env) archive"
  shows "clean (mkdtemp env) h'" "files h' archive = files h archive"
proof -
  let ?d = "mkdtemp env"
  let ?h1 = "(record_event (MkDTemp ?d) h)\<lparr>dirs := insert ?d (dirs h)\<rparr>"
  let ?body = "seq [extractall env archive ?d, copy2 (?d @ member) ''/usr/bin/ipmi_exporter'']"
  have body_files: "files (snd (?body ?h1)) archive = files h archive"
  proof -
    have "files (snd (?body ?h1)) archive = files ?h1 archive"
      using out
      by (rule_tac seq_preserves [where \<phi> = "\<lambda>h. files h archive"])
         (auto simp: extractall_files copy2_archive)
    then show ?thesis by (simp add: record_event_def)
  qed
  show "clean ?d h'"
  proof (cases "dirname ?d \<in> dirs h")
    case True
    with run obtain h2 where "h' = remove_tree ?d h2"
      by (auto simp: TemporaryDirectory_def Let_def split: prod.splits)
    then show ?thesis by (simp add: remove_tree_clean)
  next
    case False
    with run have "h' = record_event (MkDTemp ?d) h"
      by (simp add: TemporaryDirectory_def Let_def)
    with assms(2) show ?thesis
      by (simp add: clean_def path_exists_def record_event_def)
  qed
  show "files h' archive = files h archive"
    using run out body_files
    by (auto simp: TemporaryDirectory_def Let_def remove_tree_files record_event_def
        split: if_splits prod.splits)
qed

lemma unlink_archive:
  assumes "unlink archive h = (r, h')" "clean d h"
  shows "clean d h'" "r = Ok \<longrightarrow> files h' archive = None"
    "r \<noteq> Raise ReadError" "r \<noteq> Raise ExtractError"
  using assms
  by (auto simp: unlink_def record_event_def Let_def clean_def path_exists_def split: if_splits)

lemma TemporaryDirectory_outcome:
  assumes "TemporaryDirectory env (\<lambda>tmp_dir.
            seq [extractall env archive tmp_dir,
                 copy2 (tmp_dir @ member) ''/usr/bin/ipmi_exporter'']) h = (r, h')"
  shows "r = Ok \<or> (\<exists>e. r = Raise e)"
  by (cases r) auto

lemma sample_download:
  "fst (download_and_extract sample_env ''1.9.1'' ''amd64'' fresh_host) = Ok"
  by (simp add: download_and_extract_def sample_env_def fresh_host_def archive_def
      urlretrieve_def put_file_def record_event_def dirname_def tarfile_open_def
      TemporaryDirectory_def extractall_def extract_member_def remove_tree_def under_def
      copy2_def copyfile_def unlink_def Let_def)

lemma truncated_download:
  "fst (download_and_extract truncated_env ''1.9.1'' ''amd64'' fresh_host) = Raise ExtractError"
  "files (snd (download_and_extract truncated_env ''1.9.1'' ''amd64'' fresh_host)) archive =
     Some ''tarball''"
  by (simp_all add: download_and_extract_def truncated_env_def sample_env_def fresh_host_def
      archive_def urlretrieve_def put_file_def record_event_def dirname_def tarfile_open_def
      TemporaryDirectory_def extractall_def extract_member_def remove_tree_def under_def Let_def)

lemma under_tmp: "under ''/tmp/charmtmp0a1b2c3d'' p \<Longrightarrow> \<exists>rest. p = ''/tmp/c'' @ rest"
  by (auto simp: under_def prefix_def)

lemma fresh_host_tmp:
  "\<forall>p. under ''/tmp/charmtmp0a1b2c3d'' p \<longrightarrow> \<not> path_exists p fresh_host"
  "\<not> under ''/tmp/charmtmp0a1b2c3d'' archive"
proof -
  show "\<forall>p. under ''/tmp/charmtmp0a1b2c3d'' p \<longrightarrow> \<not> path_exists p fresh_host"
  proof (intro allI impI)
    fix p
    assume "under ''/tmp/charmtmp0a1b2c3d'' p"
    then obtain rest where "p = ''/tmp/c'' @ rest"
      using under_tmp by blast
    then show "\<not> path_exists p fresh_host"
      by (simp add: path_exists_def fresh_host_def)
  qed
  show "\<not> under ''/tmp/charmtmp0a1b2c3d'' archive"
    by (simp add: under_def archive_def)
qed

lemma sample_mkdtemp:
  "mkdtemp sample_env = ''/tmp/charmtmp0a1b2c3d''"
  "mkdtemp truncated_env = ''/tmp/charmtmp0a1b2c3d''"
  by (simp_all add: sample_env_def truncated_env_def)

text \<open>
  C4, as the code has it. When \<open>mkdtemp\<close> picks a fresh name, nothing at or below the
  scratch directory exists after the download-and-extract phase, whatever its outcome.
  The archive is deleted when the phase succeeds. When the archive cannot be read or
  its extraction fails, the archive stays: \<open>output.unlink()\<close> comes after the
  \<open>with\<close> block and is not reached.
\<close>

theorem download_and_extract_cleanup:
  assumes run: "download_and_extract env version arch h = (r, h')"
    and fresh: "\<forall>p. under (mkdtemp env) p \<longrightarrow> \<not> path_exists p h"
    and out: "\<not> under (mkdtemp env) archive"
  shows "(\<forall>p. under (mkdtemp env) p \<longrightarrow> \<not> path_exists p h')
    \<and> (r = Ok \<longrightarrow> files h' archive = None)
    \<and> (r = Raise ReadError \<or> r = Raise ExtractError \<longrightarrow> files h' archive \<noteq> None)"
proof -
  let ?d = "mkdtemp env"
  let ?goal = "\<lambda>r h'. clean ?d h' \<and> (r = Ok \<longrightarrow> files h' archive = None)
    \<and> (r = Raise ReadError \<or> r = Raise ExtractError \<longrightarrow> files h' archive \<noteq> None)"
  from fresh have c0: "clean ?d h" by (simp add: clean_def)
  from run have "?goal r h'"
    unfolding download_and_extract_def
  proof (cases rule: seq_Cons_cases)
    case (1 e)
    from urlretrieve_archive [OF 1(1) c0 out] 1(2) show ?thesis by auto
  next
    case (2 h1)
    note url = urlretrieve_archive [OF 2(1) c0 out]
    from 2(2) show ?thesis
    proof (cases rule: seq_Cons_cases)
      case (1 e)
      from tarfile_open_archive [OF 1(1)] url 1(2) show ?thesis
        by (auto simp: clean_def path_exists_def)
    next
      case (2 h2)
      note tar = tarfile_open_archive [OF 2(1)]
      from tar url have c2: "clean ?d h2" and a2: "files h2 archive \<noteq> None"
        by (auto simp: clean_def path_exists_def)
      from 2(2) show ?thesis
      proof (cases rule: seq_Cons_cases)
        case (1 e)
        from TemporaryDirectory_archive [OF 1(1) c2 out] a2 1(2) show ?thesis by auto
      next
        case (2 h3)
        note tmp = TemporaryDirectory_archive [OF 2(1) c2 out]
        from 2(2) show ?thesis
        proof (cases rule: seq_Cons_cases)
          case (1 e)
          from unlink_archive [OF 1(1) tmp(1)] 1(2) show ?thesis by auto
        next
          case (2 h4)
          from unlink_archive [OF 2(1) tmp(1)] 2(2) show ?thesis by auto
        qed
      qed
    qed
  qed
  then show ?thesis by (simp add: clean_def)
qed

text \<open>On the fresh host the phase succeeds and leaves neither the archive nor the scratch
  directory; with an archive whose extraction fails, the scratch directory is gone and
  the archive is still there.\<close>

theorem download_and_extract_cleanup_witness:
  "fst (download_and_extract sample_env ''1.9.1'' ''amd64'' fresh_host) = Ok
   \<and> files (snd (download_and_extract sample_env ''1.9.1'' ''amd64'' fresh_host)) archive = None
   \<and> \<not> path_exists ''/tmp/charmtmp0a1b2c3d''
         (snd (download_and_extract sample_env ''1.9.1'' ''amd64'' fresh_host))
   \<and> \<not> path_exists ''/tmp/charmtmp0a1b2c3d''
         (snd (download_and_extract truncated_env ''1.9.1'' ''amd64'' fresh_host))
   \<and> files (snd (download_and_extract truncated_env ''1.9.1'' ''amd64'' fresh_host)) archive
       \<noteq> None"
proof -
  let ?ok = "download_and_extract sample_env ''1.9.1'' ''amd64'' fresh_host"
  let ?bad = "download_and_extract truncated_env ''1.9.1'' ''amd64'' fresh_host"
  have tmp: "under ''/tmp/charmtmp0a1b2c3d'' ''/tmp/charmtmp0a1b2c3d''"
    by (simp add: under_def)
  have "?ok = (Ok, snd ?ok)"
    using sample_download by (metis prod.collapse)
  from download_and_extract_cleanup [OF this] fresh_host_tmp tmp
  have good: "files (snd ?ok) archive = None \<and> \<not> path_exists ''/tmp/charmtmp0a1b2c3d'' (snd ?ok)"
    by (simp add: sample_mkdtemp)
  have "?bad = (Raise ExtractError, snd ?bad)"
    using truncated_download(1) by (metis prod.collapse)
  from download_and_extract_cleanup [OF this] fresh_host_tmp tmp
  have "files (snd ?bad) archive \<noteq> None \<and> \<not> path_exists ''/tmp/charmtmp0a1b2c3d'' (snd ?bad)"
    by (simp add: sample_mkdtemp)
  with good sample_download show ?thesis by simp
qed

text \<open>C4 as stated fails: the extraction of the downloaded archive fails, the call
  propagates the error, and the archive \<open>/tmp/ipmi-exporter.tar.gz\<close> is still there.\<close>

theorem archive_survives_failed_extraction:
  "fst (download_and_extract truncated_env ''1.9.1'' ''amd64'' fresh_host) = Raise ExtractError
   \<and> files (snd (download_and_extract truncated_env ''1.9.1'' ''amd64'' fresh_host)) archive =
       Some ''tarball''"
  using truncated_download by simp

subsection \<open>The steps of provisioning\<close>


lemma emits_quiet: "emits env k f \<Longrightarrow> quiet_or_emits env k f"
  by (auto simp: emits_def quiet_or_emits_def)







subsection \<open>The log of each operation\<close>

















subsection \<open>The operations of each step\<close>






lemma only_seq_append:
  "only env k (seq fs) \<Longrightarrow> only env k (seq gs) \<Longrightarrow> only env k (seq (fs @ gs))"
proof (induction fs)
  case Nil
  then show ?case by simp
next
  case (Cons f fs)
  show ?case
    unfolding only_def
  proof
    fix h
    from Cons.prems(1) obtain evs where evs: "log (snd (seq (f # fs) h)) = log h @ evs"
      "\<forall>e\<in>set evs. step_of env e = Some k"
      unfolding only_def by blast
    show "\<exists>evs. log (snd (seq ((f # fs) @ gs) h)) = log h @ evs
        \<and> (\<forall>e\<in>set evs. step_of env e = Some k)"
    proof (cases "seq (f # fs) h")
      case (Pair r1 h1)
      show ?thesis
      proof (cases r1)
        case Ok
        from Cons.prems(2) obtain evs2 where evs2: "log (snd (seq gs h1)) = log h1 @ evs2"
          "\<forall>e\<in>set evs2. step_of env e = Some k"
          unfolding only_def by blast
        have "seq ((f # fs) @ gs) h = seq gs h1"
          using seq_append_Ok [of "f # fs" h h1 gs] Pair Ok by (simp del: seq.simps)
        with evs evs2 Pair show ?thesis
          by (intro exI [of _ "evs @ evs2"]) (auto simp del: seq.simps)
      next
        case (Raise e)
        have "seq ((f # fs) @ gs) h = (Raise e, h1)"
          using seq_append_Raise [of "f # fs" h e h1 gs] Pair Raise by (simp del: seq.simps)
        with evs Pair show ?thesis
          by (intro exI [of _ evs]) (simp del: seq.simps)
      qed
    qed
  qed
qed



















subsection \<open>The order of the steps\<close>










subsection \<open>The port accessor\<close>

lemma split_no_sep: "sep \<notin> set s \<Longrightarrow> split sep s = [s]"
  by (induction s) auto

lemma split_sep:
  "sep \<in> set s \<Longrightarrow>
   split sep s = takeWhile (\<lambda>c. c \<noteq> sep) s # split sep (tl (dropWhile (\<lambda>c. c \<noteq> sep) s))"
  by (induction s) (auto simp: split_no_sep split: list.splits)

lemma split_not_Nil: "split sep s \<noteq> []"
  by (induction s) (auto split: list.splits)

lemma hd_split: "hd (split sep s) = takeWhile (\<lambda>c. c \<noteq> sep) s"
  by (induction s) (auto simp: split_not_Nil split: list.splits)

text \<open>
  C10. The port accessor is partial. For a configured listen-address with at least one
  colon it returns the text between the first and the second colon (to the end of the
  string when there is no second colon); with no colon it raises \<open>IndexError\<close>; with
  the option unset it raises (\<open>AttributeError\<close>) and returns no default. Nothing
  checks that the returned text is numeric.
\<close>

theorem port_partial:
  "(cfg ''listen-address'' = Some la \<and> CHR '':'' \<in> set la \<longrightarrow>
      port cfg =
        Inr (takeWhile (\<lambda>c. c \<noteq> CHR '':'') (tl (dropWhile (\<lambda>c. c \<noteq> CHR '':'') la))))
   \<and> (cfg ''listen-address'' = Some la \<and> CHR '':'' \<notin> set la \<longrightarrow>
      port cfg = Inl IndexError)
   \<and> (cfg ''listen-address'' = None \<longrightarrow> port cfg = Inl AttributeError)"
proof (intro conjI impI)
  assume a: "cfg ''listen-address'' = Some la \<and> CHR '':'' \<in> set la"
  let ?rest = "tl (dropWhile (\<lambda>c. c \<noteq> CHR '':'') la)"
  from a have s: "split (CHR '':'') la =
      takeWhile (\<lambda>c. c \<noteq> CHR '':'') la # split (CHR '':'') ?rest"
    by (simp add: split_sep)
  obtain p ps where ps: "split (CHR '':'') ?rest = p # ps"
    using split_not_Nil [of "CHR '':''" ?rest] by (cases "split (CHR '':'') ?rest") auto
  have "p = takeWhile (\<lambda>c. c \<noteq> CHR '':'') ?rest"
    using hd_split [of "CHR '':''" ?rest] ps by simp
  with a s ps show "port cfg = Inr (takeWhile (\<lambda>c. c \<noteq> CHR '':'') ?rest)"
    by (simp add: port_def)
next
  assume "cfg ''listen-address'' = Some la \<and> CHR '':'' \<notin> set la"
  then show "port cfg = Inl IndexError"
    by (simp add: port_def split_no_sep)
next
  assume "cfg ''listen-address'' = None"
  then show "port cfg = Inl AttributeError"
    by (simp add: port_def)
qed

text \<open>The accessor at four configurations: a host and port, three fields, a port that
  is no number, no colon; and at the empty configuration.\<close>

theorem port_partial_witness:
  "port [''listen-address'' \<mapsto> ''0.0.0.0:9290''] = Inr ''9290''
   \<and> port [''listen-address'' \<mapsto> ''a:b:c''] = Inr ''b''
   \<and> port [''listen-address'' \<mapsto> ''host:http''] = Inr ''http''
   \<and> port [''listen-address'' \<mapsto> ''localhost''] = Inl IndexError
   \<and> port Map.empty = Inl AttributeError"
  using port_partial [of "[''listen-address'' \<mapsto> ''0.0.0.0:9290'']" "''0.0.0.0:9290''"]
    port_partial [of "[''listen-address'' \<mapsto> ''a:b:c'']" "''a:b:c''"]
    port_partial [of "[''listen-address'' \<mapsto> ''host:http'']" "''host:http''"]
    port_partial [of "[''listen-address'' \<mapsto> ''localhost'']" "''localhost''"]
    port_partial [of Map.empty "''x''"]
  by simp

end
